theory Spec2Isabelle
  imports Complex_Main
begin

section \<open>Product variant creation: validation and persistence\<close>

text \<open>
  A shallow embedding of \<^verbatim>\<open>ProductVariantCreate\<close>
  (\<^verbatim>\<open>saleor/graphql/product/mutations/product_variant/product_variant_create.py\<close>).
  Exceptions are values of a sum type, mutable objects are passed and returned
  explicitly, and functions imported from other modules are parameters.
\<close>

subsection \<open>Python values\<close>

text \<open>
  A Python \<^verbatim>\<open>dict\<close> is an association list in insertion order. Two dictionaries are
  equal in Python when they have the same keys and equal values under each key, whatever
  the insertion order: \<open>dict_eq\<close>.
\<close>

type_synonym ('k, 'v) dict = "('k \<times> 'v) list"

definition dict_keys :: "('k, 'v) dict \<Rightarrow> 'k set" where
  "dict_keys d = set (map fst d)"

definition dict_eq :: "('k, 'v) dict \<Rightarrow> ('k, 'v) dict \<Rightarrow> bool" where
  "dict_eq a b \<longleftrightarrow>
     (\<forall>k \<in> set (map fst a). map_of a k = map_of b k) \<and>
     (\<forall>k \<in> set (map fst b). map_of a k = map_of b k)"

text \<open>
  \<^verbatim>\<open>d[k].extend(vs)\<close> on a \<^verbatim>\<open>defaultdict(list)\<close>: a missing key is first inserted
  with the empty list, at the end of the dictionary.
\<close>

fun defaultdict_extend :: "('k, 'v list) dict \<Rightarrow> 'k \<Rightarrow> 'v list \<Rightarrow> ('k, 'v list) dict" where
  "defaultdict_extend [] k vs = [(k, [] @ vs)]"
| "defaultdict_extend ((k', ws) # d) k vs =
     (if k' = k then (k', ws @ vs) # d else (k', ws) # defaultdict_extend d k vs)"

text \<open>\<^verbatim>\<open>s.split(c)\<close> for a one-character separator: the result is never empty.\<close>

fun split_sep :: "char \<Rightarrow> string \<Rightarrow> string list" where
  "split_sep c [] = [[]]"
| "split_sep c (x # xs) =
     (if x = c then [] # split_sep c xs
      else (case split_sep c xs of
              w # ws \<Rightarrow> (x # w) # ws
            | [] \<Rightarrow> [[x]]))"

text \<open>\<^verbatim>\<open>sep.join(xs)\<close>.\<close>

fun join :: "string \<Rightarrow> string list \<Rightarrow> string" where
  "join sep [] = []"
| "join sep [x] = x"
| "join sep (x # y # ys) = x @ sep @ join sep (y # ys)"

subsection \<open>Errors\<close>

datatype ProductErrorCode =
    ATTRIBUTE_CANNOT_BE_ASSIGNED
  | DUPLICATED_INPUT_ITEM
  | INVALID
  | REQUIRED
  | UNIQUE

text \<open>
  \<open>ValidationError msg code params\<close> is \<^verbatim>\<open>ValidationError(msg, code=code,
  params={"attributes": params})\<close> (\<open>params\<close> empty when none are given),
  \<open>ValidationErrorDict field e\<close> is \<^verbatim>\<open>ValidationError({field: e})\<close>, and
  \<open>OtherException\<close> is any exception that is not a \<^verbatim>\<open>ValidationError\<close>.
\<close>

datatype error =
    ValidationError string ProductErrorCode "string set"
  | ValidationErrorDict string error
  | OtherException string

fun is_ValidationError :: "error \<Rightarrow> bool" where
  "is_ValidationError (OtherException _) = False"
| "is_ValidationError _ = True"

subsection \<open>Attributes\<close>

text \<open>
  Modelled from the spec: the enumeration \<^verbatim>\<open>AttributeInputType\<close> of input kinds is
  declared outside this file; the code below only distinguishes \<open>FILE\<close>.
\<close>

datatype AttributeInputType =
    DROPDOWN | MULTISELECT | FILE | REFERENCE | NUMERIC | RICH_TEXT | PLAIN_TEXT
  | SWATCH | BOOLEAN | DATE | DATE_TIME

record Attribute =
  attr_pk :: nat
  input_type :: AttributeInputType
  value_required :: bool

record AttrValuesInput =
  global_id :: string
  "values" :: "string list"
  file_url :: "string option"

type_synonym T_INPUT_MAP = "(Attribute \<times> AttrValuesInput) list"

type_synonym attribute_values = "(string, string list) dict"

type_synonym used_attribute_values = "attribute_values list"

subsection \<open>\<^verbatim>\<open>validate_duplicated_attribute_values\<close>\<close>

text \<open>
  The body of the \<^verbatim>\<open>for\<close> loop up to the \<^verbatim>\<open>extend\<close>: the values one pair
  contributes. \<^verbatim>\<open>slugify\<close> is Django's and is a parameter. \<^verbatim>\<open>if attr_data.file_url\<close>
  is false for \<^verbatim>\<open>None\<close> and for the empty string.
\<close>

definition attr_data_values :: "(string \<Rightarrow> string) \<Rightarrow> Attribute \<Rightarrow> AttrValuesInput \<Rightarrow> string list" where
  "attr_data_values slugify attr attr_data =
     (if input_type attr = FILE then
        (case file_url attr_data of
           None \<Rightarrow> []
         | Some url \<Rightarrow> if url \<noteq> [] then [slugify (last (split_sep CHR ''/'' url))] else [])
      else values attr_data)"

text \<open>The loop, with the dictionary under construction as accumulator.\<close>

fun collect_attribute_values ::
  "(string \<Rightarrow> string) \<Rightarrow> T_INPUT_MAP \<Rightarrow> attribute_values \<Rightarrow> attribute_values" where
  "collect_attribute_values slugify [] acc = acc"
| "collect_attribute_values slugify ((attr, attr_data) # rest) acc =
     collect_attribute_values slugify rest
       (defaultdict_extend acc (global_id attr_data) (attr_data_values slugify attr attr_data))"

text \<open>
  The function takes the registry \<^verbatim>\<open>used_attribute_values\<close>, a list it may append to,
  and returns the outcome together with the registry as the call leaves it.
  \<^verbatim>\<open>x in xs\<close> on a list compares with \<^verbatim>\<open>==\<close>.
\<close>

definition validate_duplicated_attribute_values ::
  "(string \<Rightarrow> string) \<Rightarrow> T_INPUT_MAP \<Rightarrow> used_attribute_values
     \<Rightarrow> (error + unit) \<times> used_attribute_values" where
  "validate_duplicated_attribute_values slugify attributes_data used =
     (let attribute_values = collect_attribute_values slugify attributes_data []
      in if list_ex (\<lambda>u. dict_eq attribute_values u) used then
           (Inl (ValidationError ''Duplicated attribute values for product variant.''
                   DUPLICATED_INPUT_ITEM (dict_keys attribute_values)),
            used)
         else (Inr (), used @ [attribute_values]))"

text \<open>
  Successive calls on one registry, as a caller makes them that validates several
  candidates against the same list and collects the outcomes: each call receives the list
  as the previous call left it.
\<close>

fun validate_sequence ::
  "(string \<Rightarrow> string) \<Rightarrow> T_INPUT_MAP list \<Rightarrow> used_attribute_values
     \<Rightarrow> (error + unit) list \<times> used_attribute_values" where
  "validate_sequence slugify [] used = ([], used)"
| "validate_sequence slugify (c # cs) used =
     (case validate_duplicated_attribute_values slugify c used of
        (r, used') \<Rightarrow>
          (case validate_sequence slugify cs used' of
             (rs, used'') \<Rightarrow> (r # rs, used'')))"

subsection \<open>Inputs, product types, products and variants\<close>

record StockInput =
  warehouse :: string
  quantity :: int

text \<open>
  One entry of the \<^verbatim>\<open>attributes\<close> input (\<^verbatim>\<open>AttributeValueInput\<close>); this file reads only
  its \<^verbatim>\<open>id\<close>, the rest goes to \<^verbatim>\<open>AttributeAssignmentMixin.clean_input\<close>.
\<close>

record AttributeValueInput =
  attr_id :: string
  attr_values :: "string list"
  attr_file :: "string option"

text \<open>
  \<^verbatim>\<open>PreorderSettingsInput\<close>: a field is \<open>None\<close> when its key is absent, and the input is
  false in a condition when it has no key at all.
\<close>

record PreorderSettingsInput =
  global_threshold :: "int option option"
  end_date :: "nat option option"

record ProductType =
  has_variants :: bool
  variant_attributes :: "Attribute list"

record Product =
  product_pk :: nat
  product_type :: ProductType
  default_variant :: "nat option"

record ProductVariant =
  pk :: "nat option"
  product :: "Product option"
  name :: string

text \<open>
  The dictionary \<^verbatim>\<open>cleaned_input\<close>, as \<^verbatim>\<open>super().clean_input(info, instance, data)\<close>
  returns it: a field is \<open>None\<close> when its key is absent (or holds \<^verbatim>\<open>None\<close>; for
  \<^verbatim>\<open>sku\<close> the two are kept apart). \<open>ci_weight\<close> is \<^verbatim>\<open>weight.value\<close>.
  \<open>ci_cleaned_attributes\<close> stands for the \<^verbatim>\<open>attributes\<close> entry once \<^verbatim>\<open>clean_input\<close> has
  overwritten it with the cleaned pairs; \<open>ci_is_preorder\<close>,
  \<open>ci_preorder_global_threshold\<close> and \<open>ci_preorder_end_date\<close> are the entries
  \<^verbatim>\<open>clean_input\<close> adds.
\<close>

record cleaned_input =
  ci_weight :: "real option"
  ci_quantity_limit_per_customer :: "int option"
  ci_stocks :: "StockInput list option"
  ci_product :: "Product option"
  ci_attributes :: "AttributeValueInput list option"
  ci_sku :: "string option option"
  ci_preorder :: "PreorderSettingsInput option"
  ci_cleaned_attributes :: "T_INPUT_MAP option"
  ci_is_preorder :: "bool option"
  ci_preorder_global_threshold :: "int option option"
  ci_preorder_end_date :: "nat option option"

text \<open>
  The functions \<^verbatim>\<open>clean_input\<close> calls that are defined elsewhere: Django's
  \<^verbatim>\<open>slugify\<close>, graphene's \<^verbatim>\<open>Node.to_global_id\<close>, and from this repository
  \<^verbatim>\<open>get_used_variants_attribute_values\<close>, \<^verbatim>\<open>AttributeAssignmentMixin.clean_input\<close>
  (given the input and the attributes of the queryset) and \<^verbatim>\<open>clean_variant_sku\<close>.
\<close>

record env =
  env_slugify :: "string \<Rightarrow> string"
  env_to_global_id :: "string \<Rightarrow> nat \<Rightarrow> string"
  env_get_used_variants_attribute_values :: "Product \<Rightarrow> used_attribute_values"
  env_AttributeAssignmentMixin_clean_input ::
    "AttributeValueInput list \<Rightarrow> Attribute list \<Rightarrow> error + T_INPUT_MAP"
  env_clean_variant_sku :: "string option \<Rightarrow> error + string option"

subsection \<open>\<^verbatim>\<open>check_for_duplicates_in_stocks\<close>\<close>

text \<open>
  Modelled from the spec: \<^verbatim>\<open>get_duplicated_values\<close> (\<^verbatim>\<open>saleor.graphql.core.utils\<close>) is not
  in this file. By the spec it yields the ids that repeat ("if any id repeats", "the
  duplicated ids"): the values that occur more than once in the list, each once. It is a
  collection without a specified order; the model lists it in some order.
\<close>

definition get_duplicated_values :: "'a list \<Rightarrow> 'a list" where
  "get_duplicated_values vs = remdups (filter (\<lambda>v. count_list vs v > 1) vs)"

definition check_for_duplicates_in_stocks :: "StockInput list \<Rightarrow> error + unit" where
  "check_for_duplicates_in_stocks stocks_data =
     (let warehouse_ids = map warehouse stocks_data;
          duplicates = get_duplicated_values warehouse_ids
      in if duplicates \<noteq> [] then
           Inl (ValidationErrorDict ''stocks''
                  (ValidationError (''Duplicated warehouse ID: '' @ join '', '' duplicates)
                     UNIQUE {}))
         else Inr ())"

subsection \<open>\<^verbatim>\<open>clean_input\<close>\<close>

text \<open>\<^verbatim>\<open>clean_attributes\<close>.\<close>

definition clean_attributes ::
  "env \<Rightarrow> AttributeValueInput list \<Rightarrow> ProductType \<Rightarrow> error + T_INPUT_MAP" where
  "clean_attributes env attributes ptype =
     (let attributes_qs = variant_attributes ptype
      in env_AttributeAssignmentMixin_clean_input env attributes attributes_qs)"

text \<open>\<^verbatim>\<open>if instance.pk\<close>: false for \<^verbatim>\<open>None\<close> and for \<open>0\<close>.\<close>

definition pk_is_set :: "ProductVariant \<Rightarrow> bool" where
  "pk_is_set instance = (case pk instance of None \<Rightarrow> False | Some k \<Rightarrow> k \<noteq> 0)"

text \<open>
  The checks of weight, \<^verbatim>\<open>quantity_limit_per_customer\<close> and stocks, with which
  \<^verbatim>\<open>clean_input\<close> begins. \<^verbatim>\<open>if weight\<close> is false for a zero weight, \<^verbatim>\<open>if stocks\<close>
  for an empty list.
\<close>

definition clean_weight_quantity_stocks :: "cleaned_input \<Rightarrow> error + unit" where
  "clean_weight_quantity_stocks cleaned_input =
     (if (case ci_weight cleaned_input of None \<Rightarrow> False | Some w \<Rightarrow> w \<noteq> 0 \<and> w < 0) then
        Inl (ValidationErrorDict ''weight''
               (ValidationError ''Product variant can't have negative weight.'' INVALID {}))
      else if (case ci_quantity_limit_per_customer cleaned_input of
                 None \<Rightarrow> False | Some q \<Rightarrow> q < 1) then
        Inl (ValidationErrorDict ''quantity_limit_per_customer''
               (ValidationError
                  ''Product variant can't have quantity_limit_per_customer lower than 1.''
                  INVALID {}))
      else (case ci_stocks cleaned_input of
              None \<Rightarrow> Inr ()
            | Some stocks \<Rightarrow>
                if stocks \<noteq> [] then check_for_duplicates_in_stocks stocks else Inr ()))"

text \<open>
  The product whose type and used attribute values \<^verbatim>\<open>clean_input\<close> reads: the
  instance's when the variant is being updated, the one of the \<^verbatim>\<open>product\<close> input when it
  is being created. A product that is not there raises (\<^verbatim>\<open>RelatedObjectDoesNotExist\<close>,
  \<^verbatim>\<open>KeyError\<close>).
\<close>

definition product_of :: "ProductVariant \<Rightarrow> cleaned_input \<Rightarrow> error + Product" where
  "product_of instance cleaned_input =
     (if pk_is_set instance then
        (case product instance of
           None \<Rightarrow> Inl (OtherException ''RelatedObjectDoesNotExist'')
         | Some p \<Rightarrow> Inr p)
      else
        (case ci_product cleaned_input of
           None \<Rightarrow> Inl (OtherException ''KeyError'')
         | Some p \<Rightarrow> Inr p))"

text \<open>\<^verbatim>\<open>attributes or []\<close>, and \<^verbatim>\<open>if attributes\<close>.\<close>

definition attributes_or_empty :: "cleaned_input \<Rightarrow> AttributeValueInput list" where
  "attributes_or_empty cleaned_input =
     (case ci_attributes cleaned_input of None \<Rightarrow> [] | Some attrs \<Rightarrow> attrs)"

text \<open>
  The part of \<^verbatim>\<open>clean_input\<close> on attributes, from \<^verbatim>\<open>variant_attributes_ids\<close> to the end
  of the \<^verbatim>\<open>if product_type.has_variants\<close> statement. The \<^verbatim>\<open>try\<close> block re-raises a
  \<^verbatim>\<open>ValidationError\<close> under the field \<^verbatim>\<open>attributes\<close> and lets any other exception
  through.
\<close>

definition clean_input_attributes ::
  "env \<Rightarrow> ProductVariant \<Rightarrow> cleaned_input \<Rightarrow> Product \<Rightarrow> error + cleaned_input" where
  "clean_input_attributes env instance cleaned_input parent =
     (let ptype = product_type parent;
          used_attribute_values = env_get_used_variants_attribute_values env parent;
          variant_attributes_ids =
            set (map (\<lambda>a. env_to_global_id env ''Attribute'' (attr_pk a))
                     (variant_attributes ptype));
          attributes = attributes_or_empty cleaned_input;
          attributes_ids = set (map attr_id attributes);
          invalid_attributes = attributes_ids - variant_attributes_ids
      in if invalid_attributes \<noteq> {} then
           Inl (ValidationError ''Given attributes are not a variant attributes.''
                  ATTRIBUTE_CANNOT_BE_ASSIGNED invalid_attributes)
         else if has_variants ptype then
           (case (if attributes \<noteq> [] then
                    (case clean_attributes env attributes ptype of
                       Inl exc \<Rightarrow> Inl exc
                     | Inr cleaned_attributes \<Rightarrow>
                         (case fst (validate_duplicated_attribute_values (env_slugify env)
                                      cleaned_attributes used_attribute_values) of
                            Inl exc \<Rightarrow> Inl exc
                          | Inr _ \<Rightarrow>
                              Inr (cleaned_input
                                     \<lparr>ci_cleaned_attributes := Some cleaned_attributes\<rparr>)))
                  else if \<not> pk_is_set instance
                          \<and> (attributes = []
                               \<and> filter value_required (variant_attributes ptype) \<noteq> []) then
                    Inl (ValidationError ''All required attributes must take a value.''
                           REQUIRED {})
                  else Inr cleaned_input) of
              Inl exc \<Rightarrow>
                Inl (if is_ValidationError exc then ValidationErrorDict ''attributes'' exc
                     else exc)
            | Inr cleaned \<Rightarrow> Inr cleaned)
         else if attributes \<noteq> [] then
           Inl (ValidationError ''Cannot assign attributes for product type without variants''
                  INVALID {})
         else Inr cleaned_input)"

text \<open>The end of \<^verbatim>\<open>clean_input\<close>: the SKU and the preorder settings.\<close>

definition clean_sku_preorder :: "env \<Rightarrow> cleaned_input \<Rightarrow> error + cleaned_input" where
  "clean_sku_preorder env cleaned_input =
     (case (case ci_sku cleaned_input of
              None \<Rightarrow> Inr cleaned_input
            | Some sku \<Rightarrow>
                (case env_clean_variant_sku env sku of
                   Inl exc \<Rightarrow> Inl exc
                 | Inr sku' \<Rightarrow> Inr (cleaned_input\<lparr>ci_sku := Some sku'\<rparr>))) of
        Inl exc \<Rightarrow> Inl exc
      | Inr cleaned \<Rightarrow>
          (case ci_preorder cleaned of
             None \<Rightarrow> Inr cleaned
           | Some preorder_settings \<Rightarrow>
               if global_threshold preorder_settings \<noteq> None
                  \<or> end_date preorder_settings \<noteq> None then
                 Inr (cleaned
                       \<lparr>ci_is_preorder := Some True,
                        ci_preorder_global_threshold :=
                          Some (case global_threshold preorder_settings of
                                  None \<Rightarrow> None | Some t \<Rightarrow> t),
                        ci_preorder_end_date :=
                          Some (case end_date preorder_settings of
                                  None \<Rightarrow> None | Some d \<Rightarrow> d)\<rparr>)
               else Inr cleaned))"

text \<open>
  \<^verbatim>\<open>clean_input\<close>, from the dictionary the base class returns: the four parts in the
  order of the source, the first exception ending the call.
\<close>

definition clean_input :: "env \<Rightarrow> ProductVariant \<Rightarrow> cleaned_input \<Rightarrow> error + cleaned_input" where
  "clean_input env instance cleaned_input =
     (case clean_weight_quantity_stocks cleaned_input of
        Inl exc \<Rightarrow> Inl exc
      | Inr _ \<Rightarrow>
          (case product_of instance cleaned_input of
             Inl exc \<Rightarrow> Inl exc
           | Inr parent \<Rightarrow>
               (case clean_input_attributes env instance cleaned_input parent of
                  Inl exc \<Rightarrow> Inl exc
                | Inr cleaned \<Rightarrow> clean_sku_preorder env cleaned)))"

subsection \<open>The database and the effects of \<^verbatim>\<open>save\<close>\<close>

text \<open>
  What \<^verbatim>\<open>save\<close> acts on. Of the database, the rows of the products are explicit: the
  default variant, the time of the last update, and the other columns; the other tables
  (variants, stocks, assigned attributes) are left open. Beside the database there are the
  queue of \<^verbatim>\<open>update_product_discounted_price_task\<close>, with the product ids given to
  \<^verbatim>\<open>delay\<close>, and the events handed to \<^verbatim>\<open>call_event\<close>.
\<close>

record 'c ProductRow =
  row_default_variant :: "nat option"
  row_updated_at :: nat
  row_other_columns :: 'c

record ('c, 'r) Database =
  products :: "nat \<rightharpoonup> 'c ProductRow"
  other_tables :: 'r

datatype Event = product_variant_created | product_variant_updated

record ('c, 'r) World =
  db :: "('c, 'r) Database"
  task_queue :: "nat list"
  events :: "(Event \<times> ProductVariant) list"

text \<open>
  A statement is a function from the world to an outcome, a value or the exception
  raised, and the world it leaves. \<open>and_then\<close> is sequencing: an exception ends the
  sequence.
\<close>

type_synonym ('w, 'a) effect = "'w \<Rightarrow> (error + 'a) \<times> 'w"

definition succeed :: "'a \<Rightarrow> ('w, 'a) effect" where
  "succeed x = (\<lambda>w. (Inr x, w))"

definition raise :: "error \<Rightarrow> ('w, 'a) effect" where
  "raise exc = (\<lambda>w. (Inl exc, w))"

definition and_then :: "('w, 'a) effect \<Rightarrow> ('a \<Rightarrow> ('w, 'b) effect) \<Rightarrow> ('w, 'b) effect" where
  "and_then m f =
     (\<lambda>w. case m w of
             (Inl exc, w') \<Rightarrow> (Inl exc, w')
           | (Inr x, w') \<Rightarrow> f x w')"

text \<open>A call that reads and writes the database only.\<close>

definition on_database ::
  "(('c, 'r) Database \<Rightarrow> error + 'a \<times> ('c, 'r) Database) \<Rightarrow> (('c, 'r) World, 'a) effect" where
  "on_database f =
     (\<lambda>w. case f (db w) of
             Inl exc \<Rightarrow> (Inl exc, w)
           | Inr (x, d) \<Rightarrow> (Inr x, w\<lparr>db := d\<rparr>))"

definition write_database ::
  "(('c, 'r) Database \<Rightarrow> error + ('c, 'r) Database) \<Rightarrow> (('c, 'r) World, unit) effect" where
  "write_database f =
     on_database (\<lambda>d. case f d of Inl exc \<Rightarrow> Inl exc | Inr d' \<Rightarrow> Inr ((), d'))"

text \<open>\<^verbatim>\<open>update_product_discounted_price_task.delay(product_id)\<close>.\<close>

definition delay :: "nat \<Rightarrow> (('c, 'r) World, unit) effect" where
  "delay product_id = (\<lambda>w. (Inr (), w\<lparr>task_queue := task_queue w @ [product_id]\<rparr>))"

text \<open>\<^verbatim>\<open>cls.call_event(event_to_call, instance)\<close>.\<close>

definition call_event :: "Event \<Rightarrow> ProductVariant \<Rightarrow> (('c, 'r) World, unit) effect" where
  "call_event event_to_call instance =
     (\<lambda>w. (Inr (), w\<lparr>events := events w @ [(event_to_call, instance)]\<rparr>))"

text \<open>
  Modelled from the spec: \<^verbatim>\<open>traced_atomic_transaction\<close> (\<^verbatim>\<open>saleor.core.tracing\<close>) is not
  in this file. By the spec the block under it is "a single atomic transaction; all steps
  succeed together or none are visible", and "failure at any step aborts the whole
  transaction": when the block raises, the database is the one it started from. What the
  block did outside the database stays.
\<close>

definition traced_atomic_transaction ::
  "(('c, 'r) World, 'a) effect \<Rightarrow> (('c, 'r) World, 'a) effect" where
  "traced_atomic_transaction block =
     (\<lambda>w. case block w of
             (Inl exc, w') \<Rightarrow> (Inl exc, w'\<lparr>db := db w\<rparr>)
           | (Inr x, w') \<Rightarrow> (Inr x, w'))"

text \<open>
  The functions \<^verbatim>\<open>save\<close> calls that are defined elsewhere, as functions on the database:
  Django's \<^verbatim>\<open>instance.save()\<close>, which yields the primary key of the row written,
  \<^verbatim>\<open>get_nodes_or_error\<close> for the warehouses, \<^verbatim>\<open>create_stocks\<close>,
  \<^verbatim>\<open>AttributeAssignmentMixin.save\<close>, \<^verbatim>\<open>generate_and_set_variant_name\<close>, which yields the
  name it sets, and \<^verbatim>\<open>update_product_search_vector\<close>; and the time \<^verbatim>\<open>updated_at\<close> is
  set to.
\<close>

record ('c, 'r) persistence =
  instance_save :: "ProductVariant \<Rightarrow> ('c, 'r) Database \<Rightarrow> error + nat \<times> ('c, 'r) Database"
  get_nodes_or_error :: "string list \<Rightarrow> ('c, 'r) Database \<Rightarrow> error + nat list"
  create_stocks ::
    "ProductVariant \<Rightarrow> StockInput list \<Rightarrow> nat list \<Rightarrow> ('c, 'r) Database
       \<Rightarrow> error + ('c, 'r) Database"
  AttributeAssignmentMixin_save ::
    "ProductVariant \<Rightarrow> T_INPUT_MAP \<Rightarrow> ('c, 'r) Database \<Rightarrow> error + ('c, 'r) Database"
  generate_and_set_variant_name ::
    "ProductVariant \<Rightarrow> string option \<Rightarrow> ('c, 'r) Database
       \<Rightarrow> error + string \<times> ('c, 'r) Database"
  update_product_search_vector :: "Product \<Rightarrow> ('c, 'r) Database \<Rightarrow> error + ('c, 'r) Database"
  now :: nat



subsection \<open>\<^verbatim>\<open>save\<close>\<close>

text \<open>
  Django's \<^verbatim>\<open>product.save(update_fields=["default_variant", "updated_at"])\<close>: the two
  columns of the product's row are written, \<^verbatim>\<open>updated_at\<close> with the current time, and a
  row that is not there is a \<^verbatim>\<open>DatabaseError\<close>.
\<close>

definition product_save_default_variant ::
  "nat \<Rightarrow> Product \<Rightarrow> ('c, 'r) Database \<Rightarrow> error + ('c, 'r) Database" where
  "product_save_default_variant time p d =
     (case products d (product_pk p) of
        None \<Rightarrow> Inl (OtherException ''DatabaseError'')
      | Some row \<Rightarrow>
          Inr (d\<lparr>products := (products d)(product_pk p \<mapsto>
                  row\<lparr>row_default_variant := default_variant p, row_updated_at := time\<rparr>)\<rparr>))"

text \<open>
  The statement \<^verbatim>\<open>if not instance.product.default_variant: ...\<close> of \<^verbatim>\<open>save\<close>; it yields
  the product object as it leaves it.
\<close>

definition set_default_variant ::
  "nat \<Rightarrow> ProductVariant \<Rightarrow> Product \<Rightarrow> (('c, 'r) World, Product) effect" where
  "set_default_variant time instance p =
     (if default_variant p = None then
        (let p' = p\<lparr>default_variant := pk instance\<rparr>
         in and_then (write_database (product_save_default_variant time p'))
                     (\<lambda>_. succeed p'))
      else succeed p)"

text \<open>\<^verbatim>\<open>create_variant_stocks\<close>.\<close>

definition create_variant_stocks ::
  "('c, 'r) persistence \<Rightarrow> ProductVariant \<Rightarrow> StockInput list \<Rightarrow> (('c, 'r) World, unit) effect" where
  "create_variant_stocks P variant stocks =
     (let warehouse_ids = map warehouse stocks
      in and_then
           (on_database (\<lambda>d. case get_nodes_or_error P warehouse_ids d of
                                Inl exc \<Rightarrow> Inl exc
                              | Inr warehouses \<Rightarrow> Inr (warehouses, d)))
           (\<lambda>warehouses. write_database (create_stocks P variant stocks warehouses)))"

text \<open>
  \<^verbatim>\<open>save\<close>. The instance is returned as the call leaves it: with its primary key, its
  product and its name. \<^verbatim>\<open>cleaned_input\<close> is the dictionary \<^verbatim>\<open>clean_input\<close> returned, in
  which a non-empty \<^verbatim>\<open>attributes\<close> entry holds the cleaned pairs.
  \<^verbatim>\<open>load_plugin_manager\<close> only yields the manager whose two methods are the events, and
  \<^verbatim>\<open>instance.product_id\<close> is the primary key of \<^verbatim>\<open>instance.product\<close>.
\<close>

definition save ::
  "('c, 'r) persistence \<Rightarrow> ProductVariant \<Rightarrow> cleaned_input
     \<Rightarrow> (('c, 'r) World, ProductVariant) effect" where
  "save P instance cleaned_input =
     (let new_variant = (pk instance = None)
      in traced_atomic_transaction
           (and_then (on_database (instance_save P instance)) (\<lambda>k.
            let instance = instance\<lparr>pk := Some k\<rparr> in
            and_then (case product instance of
                        None \<Rightarrow> raise (OtherException ''RelatedObjectDoesNotExist'')
                      | Some p \<Rightarrow> set_default_variant (now P) instance p) (\<lambda>p.
            let instance = instance\<lparr>product := Some p\<rparr> in
            and_then (delay (product_pk p)) (\<lambda>_.
            and_then (case ci_stocks cleaned_input of
                        None \<Rightarrow> succeed ()
                      | Some stocks \<Rightarrow>
                          if stocks \<noteq> [] then create_variant_stocks P instance stocks
                          else succeed ()) (\<lambda>_.
            and_then (case ci_cleaned_attributes cleaned_input of
                        None \<Rightarrow> succeed ()
                      | Some attributes \<Rightarrow>
                          if attributes \<noteq> [] then
                            write_database (AttributeAssignmentMixin_save P instance attributes)
                          else succeed ()) (\<lambda>_.
            and_then (if name instance = [] then
                        and_then
                          (on_database
                             (generate_and_set_variant_name P instance
                                (case ci_sku cleaned_input of None \<Rightarrow> None | Some sku \<Rightarrow> sku)))
                          (\<lambda>n. succeed (instance\<lparr>name := n\<rparr>))
                      else succeed instance) (\<lambda>instance.
            and_then (write_database (update_product_search_vector P p)) (\<lambda>_.
            and_then (call_event (if new_variant then product_variant_created
                                  else product_variant_updated) instance) (\<lambda>_.
            succeed instance))))))))))"

subsection \<open>Example collaborators and inputs\<close>

text \<open>
  Concrete collaborators on which the model can be evaluated: a global id that spells out
  the type name and the key, a slug that is the text itself, no variant stored yet, an
  attribute cleaner that pairs every input with the attribute of that global id, and an
  SKU that is kept as it is.
\<close>

definition example_global_id :: "string \<Rightarrow> nat \<Rightarrow> string" where
  "example_global_id type_name n = type_name @ '':'' @ replicate n CHR ''I''"

definition example_cleaner ::
  "AttributeValueInput list \<Rightarrow> Attribute list \<Rightarrow> error + T_INPUT_MAP" where
  "example_cleaner raw_input attributes_qs =
     Inr (concat (map (\<lambda>a. map (\<lambda>i. (a, \<lparr>global_id = attr_id i, values = attr_values i,
                                             file_url = attr_file i\<rparr>))
                               (filter (\<lambda>i. attr_id i = example_global_id ''Attribute'' (attr_pk a))
                                       raw_input))
                      attributes_qs))"

definition example_env :: env where
  "example_env =
     \<lparr>env_slugify = id,
      env_to_global_id = example_global_id,
      env_get_used_variants_attribute_values = (\<lambda>_. []),
      env_AttributeAssignmentMixin_clean_input = example_cleaner,
      env_clean_variant_sku = Inr\<rparr>"

text \<open>A product type with one required attribute, a product of it, and a new variant.\<close>

definition example_product :: "bool \<Rightarrow> Product" where
  "example_product configurable =
     \<lparr>product_pk = 1,
      product_type =
        \<lparr>has_variants = configurable,
         variant_attributes = [\<lparr>attr_pk = 1, input_type = DROPDOWN, value_required = True\<rparr>]\<rparr>,
      default_variant = None\<rparr>"

definition unsaved_variant :: ProductVariant where
  "unsaved_variant = \<lparr>pk = None, product = None, name = []\<rparr>"

definition example_input :: "bool \<Rightarrow> AttributeValueInput list \<Rightarrow> cleaned_input" where
  "example_input configurable attributes =
     \<lparr>ci_weight = None,
      ci_quantity_limit_per_customer = None,
      ci_stocks = None,
      ci_product = Some (example_product configurable),
      ci_attributes = Some attributes,
      ci_sku = None,
      ci_preorder = None,
      ci_cleaned_attributes = None,
      ci_is_preorder = None,
      ci_preorder_global_threshold = None,
      ci_preorder_end_date = None\<rparr>"

text \<open>
  A database whose other tables are the list of the variants' primary keys, and
  collaborators on it: saving a variant without primary key appends the next key, the
  warehouse \<^verbatim>\<open>W404\<close> does not exist, and the other calls leave the database as it is.
\<close>

definition example_persistence :: "(unit, nat list) persistence" where
  "example_persistence =
     \<lparr>instance_save =
        (\<lambda>instance d. case pk instance of
                         Some k \<Rightarrow> Inr (k, d)
                       | None \<Rightarrow>
                           Inr (Suc (length (other_tables d)),
                                d\<lparr>other_tables :=
                                     other_tables d @ [Suc (length (other_tables d))]\<rparr>)),
      get_nodes_or_error =
        (\<lambda>ids d. if ''W404'' \<in> set ids then Inl (OtherException ''W404 not found'')
                   else Inr (map length ids)),
      create_stocks = (\<lambda>variant stocks warehouses d. Inr d),
      AttributeAssignmentMixin_save = (\<lambda>variant attributes d. Inr d),
      generate_and_set_variant_name = (\<lambda>variant sku d. Inr (''variant'', d)),
      update_product_search_vector = (\<lambda>p d. Inr d),
      now = 42\<rparr>"

definition example_world :: "(unit, nat list) World" where
  "example_world =
     \<lparr>db = \<lparr>products = [1 \<mapsto> \<lparr>row_default_variant = None, row_updated_at = 0,
                                 row_other_columns = ()\<rparr>],
            other_tables = []\<rparr>,
      task_queue = [],
      events = []\<rparr>"

section \<open>Properties\<close>

subsection \<open>Python values\<close>

lemma split_sep_nonempty: "split_sep c s \<noteq> []"
  by (induction s) (auto split: list.splits)

lemma split_sep_absent: "c \<notin> set s \<Longrightarrow> split_sep c s = [s]"
  by (induction s) auto

lemma split_sep_present: "c \<in> set s \<Longrightarrow> \<exists>w w' ws. split_sep c s = w # w' # ws"
proof (induction s)
  case Nil then show ?case by simp
next
  case (Cons x xs)
  show ?case
  proof (cases "x = c")
    case True
    then show ?thesis using split_sep_nonempty [of c xs]
      by (cases "split_sep c xs") auto
  next
    case False
    with Cons.prems have "c \<in> set xs" by simp
    from Cons.IH [OF this] False show ?thesis by auto
  qed
qed

lemma last_split_sep: "last (split_sep c s) = rev (takeWhile (\<lambda>x. x \<noteq> c) (rev s))"
proof (induction s)
  case Nil show ?case by simp
next
  case (Cons x xs)
  show ?case
  proof (cases "c \<in> set xs")
    case True
    from split_sep_present [OF True] obtain w w' ws where "split_sep c xs = w # w' # ws" by blast
    with Cons True show ?thesis by (auto simp: takeWhile_append)
  next
    case False
    with split_sep_absent [OF False] show ?thesis by (auto simp: takeWhile_append)
  qed
qed

lemma map_of_defaultdict_extend:
  "map_of (defaultdict_extend d k vs) =
     (map_of d)(k \<mapsto> (case map_of d k of None \<Rightarrow> vs | Some ws \<Rightarrow> ws @ vs))"
  by (induction d) (auto simp: fun_eq_iff)

lemma dict_keys_dom: "dict_keys d = dom (map_of d)"
  by (simp add: dict_keys_def dom_map_of_conv_image_fst)

lemma keys_defaultdict_extend:
  "dict_keys (defaultdict_extend d k vs) = insert k (dict_keys d)"
  by (simp add: dict_keys_dom map_of_defaultdict_extend)

lemma dict_eq_iff: "dict_eq a b \<longleftrightarrow> map_of a = map_of b"
proof
  assume h: "dict_eq a b"
  show "map_of a = map_of b"
  proof
    fix k
    show "map_of a k = map_of b k"
    proof (cases "k \<in> set (map fst a) \<or> k \<in> set (map fst b)")
      case True with h show ?thesis by (auto simp: dict_eq_def)
    next
      case False
      then have "map_of a k = None" "map_of b k = None"
        by (auto simp: map_of_eq_None_iff)
      then show ?thesis by simp
    qed
  qed
next
  assume "map_of a = map_of b" then show "dict_eq a b" by (simp add: dict_eq_def)
qed

lemma dict_eq_keys_iff:
  "dict_eq a b \<longleftrightarrow> dict_keys a = dict_keys b \<and> (\<forall>k \<in> dict_keys b. map_of a k = map_of b k)"
proof
  assume "dict_eq a b"
  then have "map_of a = map_of b" by (simp add: dict_eq_iff)
  then show "dict_keys a = dict_keys b \<and> (\<forall>k \<in> dict_keys b. map_of a k = map_of b k)"
    by (simp add: dict_keys_dom)
next
  assume h: "dict_keys a = dict_keys b \<and> (\<forall>k \<in> dict_keys b. map_of a k = map_of b k)"
  then show "dict_eq a b" by (auto simp: dict_eq_def dict_keys_def)
qed

lemma dict_eq_sym: "dict_eq a b \<longleftrightarrow> dict_eq b a"
  by (auto simp: dict_eq_iff)

lemma dict_eq_trans: "dict_eq a b \<Longrightarrow> dict_eq b c \<Longrightarrow> dict_eq a c"
  by (simp add: dict_eq_iff)

lemma dict_eq_refl: "dict_eq a a"
  by (simp add: dict_eq_iff)

lemma map_of_collect_attribute_values:
  "map_of (collect_attribute_values slugify data acc) k =
     (if k \<in> dict_keys acc \<union> (global_id \<circ> snd) ` set data then
        Some ((case map_of acc k of None \<Rightarrow> [] | Some ws \<Rightarrow> ws) @
              concat (map (\<lambda>(attr, d). attr_data_values slugify attr d)
                          (filter (\<lambda>(attr, d). global_id d = k) data)))
      else None)"
proof (induction data arbitrary: acc)
  case Nil
  show ?case by (auto simp: dict_keys_dom split: option.splits)
next
  case (Cons p data)
  obtain attr d where p: "p = (attr, d)" by (cases p)
  show ?case unfolding p
    by (simp add: Cons.IH keys_defaultdict_extend map_of_defaultdict_extend)
       (auto simp: dict_keys_dom split: option.splits)
qed

lemma keys_collect_attribute_values:
  "dict_keys (collect_attribute_values slugify data acc) = dict_keys acc \<union> (global_id \<circ> snd) ` set data"
proof (induction data arbitrary: acc)
  case Nil
  show ?case by simp
next
  case (Cons p data)
  obtain attr d where p: "p = (attr, d)" by (cases p)
  show ?case unfolding p by (simp add: Cons.IH keys_defaultdict_extend)
qed

lemma list_ex_dict_eq:
  "list_ex (\<lambda>u. dict_eq a u) used \<longleftrightarrow>
     (\<exists>u \<in> set used. dict_keys u = dict_keys a \<and> (\<forall>k \<in> dict_keys a. map_of u k = map_of a k))"
  unfolding list_ex_iff using dict_eq_keys_iff [of _ a] dict_eq_sym [of a] by blast

subsection \<open>Duplicate configuration detection\<close>

text \<open>
  Claim C1. The signature built by \<^verbatim>\<open>validate_duplicated_attribute_values\<close> has the
  global ids of the pairs as its keys and maps each id to the values contributed by the
  pairs that carry it, in order (for an id carried by one pair: that pair's values). A
  pair of a \<open>FILE\<close> attribute contributes the slug of the part of \<^verbatim>\<open>file_url\<close> after
  the last \<^verbatim>\<open>/\<close>, or nothing when there is no (or an empty) \<^verbatim>\<open>file_url\<close>; a pair
  of any other kind contributes its supplied values as they are. The call raises
  \<open>DUPLICATED_INPUT_ITEM\<close>, with the keys of the signature as parameters, exactly when
  some signature of the registry has the same keys and the same list under every key.
\<close>

theorem duplicate_signature_detection:
  "(let sig = collect_attribute_values slugify data [];
        outcome = fst (validate_duplicated_attribute_values slugify data used)
    in dict_keys sig = (global_id \<circ> snd) ` set data
     \<and> (\<forall>k \<in> dict_keys sig.
           map_of sig k =
             Some (concat (map (\<lambda>(attr, d). attr_data_values slugify attr d)
                               (filter (\<lambda>(attr, d). global_id d = k) data))))
     \<and> (\<forall>(attr, d) \<in> set data.
           attr_data_values slugify attr d =
             (if input_type attr = FILE then
                (case file_url d of
                   None \<Rightarrow> []
                 | Some url \<Rightarrow>
                     if url = [] then []
                     else [slugify (rev (takeWhile (\<lambda>c. c \<noteq> CHR ''/'') (rev url)))])
              else values d)
         \<and> (filter (\<lambda>(attr', d'). global_id d' = global_id d) data = [(attr, d)] \<longrightarrow>
              map_of sig (global_id d) = Some (attr_data_values slugify attr d)))
     \<and> (outcome = Inl (ValidationError ''Duplicated attribute values for product variant.''
                         DUPLICATED_INPUT_ITEM (dict_keys sig))
          \<longleftrightarrow> (\<exists>u \<in> set used. dict_keys u = dict_keys sig
                               \<and> (\<forall>k \<in> dict_keys sig. map_of u k = map_of sig k)))
     \<and> (outcome = Inr ()
          \<longleftrightarrow> \<not> (\<exists>u \<in> set used. dict_keys u = dict_keys sig
                               \<and> (\<forall>k \<in> dict_keys sig. map_of u k = map_of sig k))))"
proof -
  define sig where "sig = collect_attribute_values slugify data []"
  have keys: "dict_keys sig = (global_id \<circ> snd) ` set data"
    by (simp add: sig_def keys_collect_attribute_values) (simp add: dict_keys_def)
  have mp: "\<And>k. k \<in> dict_keys sig \<Longrightarrow>
           map_of sig k =
             Some (concat (map (\<lambda>(attr, d). attr_data_values slugify attr d)
                               (filter (\<lambda>(attr, d). global_id d = k) data)))"
    using keys by (simp add: sig_def map_of_collect_attribute_values)
  have contrib: "\<And>attr d. attr_data_values slugify attr d =
             (if input_type attr = FILE then
                (case file_url d of
                   None \<Rightarrow> []
                 | Some url \<Rightarrow>
                     if url = [] then []
                     else [slugify (rev (takeWhile (\<lambda>c. c \<noteq> CHR ''/'') (rev url)))])
              else values d)"
    by (simp add: attr_data_values_def last_split_sep split: option.splits)
  have single: "\<And>attr d. (attr, d) \<in> set data \<Longrightarrow>
        filter (\<lambda>(attr', d'). global_id d' = global_id d) data = [(attr, d)] \<Longrightarrow>
              map_of sig (global_id d) = Some (attr_data_values slugify attr d)"
  proof -
    fix attr d assume m: "(attr, d) \<in> set data"
      and f: "filter (\<lambda>(attr', d'). global_id d' = global_id d) data = [(attr, d)]"
    from m have "global_id d \<in> dict_keys sig" unfolding keys by force
    from mp [OF this] show "map_of sig (global_id d) = Some (attr_data_values slugify attr d)"
      by (simp add: f)
  qed
  have rej: "fst (validate_duplicated_attribute_values slugify data used) =
          Inl (ValidationError ''Duplicated attribute values for product variant.''
                         DUPLICATED_INPUT_ITEM (dict_keys sig))
          \<longleftrightarrow> (\<exists>u \<in> set used. dict_keys u = dict_keys sig
                               \<and> (\<forall>k \<in> dict_keys sig. map_of u k = map_of sig k))"
    by (simp add: validate_duplicated_attribute_values_def Let_def sig_def [symmetric] list_ex_dict_eq)
  have acc: "fst (validate_duplicated_attribute_values slugify data used) = Inr ()
          \<longleftrightarrow> \<not> (\<exists>u \<in> set used. dict_keys u = dict_keys sig
                               \<and> (\<forall>k \<in> dict_keys sig. map_of u k = map_of sig k))"
    by (simp add: validate_duplicated_attribute_values_def Let_def sig_def [symmetric] list_ex_dict_eq)
  show ?thesis
    unfolding Let_def sig_def [symmetric]
    using keys mp contrib single rej acc by blast
qed

theorem duplicate_signature_detection_witness:
  "fst (validate_duplicated_attribute_values (\<lambda>s. s)
          [(\<lparr>attr_pk = 1, input_type = FILE, value_required = True\<rparr>,
            \<lparr>global_id = ''A1'', values = [], file_url = Some ''media/files/photo.png''\<rparr>),
           (\<lparr>attr_pk = 2, input_type = DROPDOWN, value_required = False\<rparr>,
            \<lparr>global_id = ''A2'', values = [''red'', ''red''], file_url = None\<rparr>)]
          [[(''A2'', [''red'', ''red'']), (''A1'', [''photo.png''])]])
   = Inl (ValidationError ''Duplicated attribute values for product variant.''
            DUPLICATED_INPUT_ITEM {''A1'', ''A2''})
   \<and> fst (validate_duplicated_attribute_values (\<lambda>s. s)
          [(\<lparr>attr_pk = 1, input_type = FILE, value_required = True\<rparr>,
            \<lparr>global_id = ''A1'', values = [], file_url = Some ''media/files/photo.png''\<rparr>),
           (\<lparr>attr_pk = 2, input_type = DROPDOWN, value_required = False\<rparr>,
            \<lparr>global_id = ''A2'', values = [''red'', ''red''], file_url = None\<rparr>)]
          [[(''A2'', [''red'']), (''A1'', [''photo.png''])]])
   = Inr ()"
proof -
  let ?data = "[(\<lparr>attr_pk = 1, input_type = FILE, value_required = True\<rparr>,
            \<lparr>global_id = ''A1'', values = [], file_url = Some ''media/files/photo.png''\<rparr>),
           (\<lparr>attr_pk = 2, input_type = DROPDOWN, value_required = False\<rparr>,
            \<lparr>global_id = ''A2'', values = [''red'', ''red''], file_url = None\<rparr>)]"
  have sig: "collect_attribute_values (\<lambda>s. s) ?data [] =
               [(''A1'', [''photo.png'']), (''A2'', [''red'', ''red''])]"
    by (simp add: attr_data_values_def)
  have k: "dict_keys [(''A1'', [''photo.png'']), (''A2'', [''red'', ''red''])] = {''A1'', ''A2''}"
    by (simp add: dict_keys_def)
  note t1 = duplicate_signature_detection [of "\<lambda>s. s" ?data "[[(''A2'', [''red'', ''red'']), (''A1'', [''photo.png''])]]",
                unfolded Let_def sig]
  note rej = t1 [THEN conjunct2, THEN conjunct2, THEN conjunct2, THEN conjunct1]
  note t2 = duplicate_signature_detection [of "\<lambda>s. s" ?data "[[(''A2'', [''red'']), (''A1'', [''photo.png''])]]",
                unfolded Let_def sig]
  note acc = t2 [THEN conjunct2, THEN conjunct2, THEN conjunct2, THEN conjunct2]
  have m1: "map_of [(''A2'', [''red'', ''red'']), (''A1'', [''photo.png''])] ''A1'' = Some [''photo.png'']"
    by simp
  have m2: "map_of [(''A2'', [''red'', ''red'']), (''A1'', [''photo.png''])] ''A2'' = Some [''red'', ''red'']"
    by simp
  have k1: "dict_keys [(''A2'', [''red'', ''red'']), (''A1'', [''photo.png''])] = {''A1'', ''A2''}"
    by (auto simp: dict_keys_def)
  have k2: "dict_keys [(''A2'', [''red'']), (''A1'', [''photo.png''])] = {''A1'', ''A2''}"
    by (auto simp: dict_keys_def)
  have r: "\<exists>u \<in> set [[(''A2'', [''red'', ''red'']), (''A1'', [''photo.png''])]].
             dict_keys u = dict_keys [(''A1'', [''photo.png'']), (''A2'', [''red'', ''red''])]
           \<and> (\<forall>k \<in> dict_keys [(''A1'', [''photo.png'']), (''A2'', [''red'', ''red''])].
                  map_of u k = map_of [(''A1'', [''photo.png'']), (''A2'', [''red'', ''red''])] k)"
    unfolding k by (simp add: k1)
  have a: "\<not> (\<exists>u \<in> set [[(''A2'', [''red'']), (''A1'', [''photo.png''])]].
             dict_keys u = dict_keys [(''A1'', [''photo.png'']), (''A2'', [''red'', ''red''])]
           \<and> (\<forall>k \<in> dict_keys [(''A1'', [''photo.png'']), (''A2'', [''red'', ''red''])].
                  map_of u k = map_of [(''A1'', [''photo.png'']), (''A2'', [''red'', ''red''])] k))"
    unfolding k by (simp add: k2)
  from rej r acc a show ?thesis unfolding k by blast
qed

text \<open>
  Claim C9. When \<^verbatim>\<open>validate_duplicated_attribute_values\<close> raises, the error is
  \<open>DUPLICATED_INPUT_ITEM\<close> and the registry is the one the call received: a later call
  on it behaves as it would have on the registry before the rejected call.
\<close>

theorem rejected_candidate_leaves_registry:
  "fst (validate_duplicated_attribute_values slugify data used) = Inl e \<Longrightarrow>
     snd (validate_duplicated_attribute_values slugify data used) = used
   \<and> e = ValidationError ''Duplicated attribute values for product variant.''
            DUPLICATED_INPUT_ITEM (dict_keys (collect_attribute_values slugify data []))
   \<and> validate_duplicated_attribute_values slugify data'
        (snd (validate_duplicated_attribute_values slugify data used))
       = validate_duplicated_attribute_values slugify data' used"
  by (auto simp: validate_duplicated_attribute_values_def Let_def split: if_splits)

theorem rejected_candidate_leaves_registry_witness:
  "snd (validate_duplicated_attribute_values (\<lambda>s. s)
          [(\<lparr>attr_pk = 2, input_type = DROPDOWN, value_required = False\<rparr>,
            \<lparr>global_id = ''A2'', values = [''red''], file_url = None\<rparr>)]
          [[(''A2'', [''red''])], [(''A2'', [''blue''])]])
     = [[(''A2'', [''red''])], [(''A2'', [''blue''])]]"
proof -
  have "fst (validate_duplicated_attribute_values (\<lambda>s. s)
          [(\<lparr>attr_pk = 2, input_type = DROPDOWN, value_required = False\<rparr>,
            \<lparr>global_id = ''A2'', values = [''red''], file_url = None\<rparr>)]
          [[(''A2'', [''red''])], [(''A2'', [''blue''])]])
        = Inl (ValidationError ''Duplicated attribute values for product variant.''
            DUPLICATED_INPUT_ITEM {''A2''})"
    by (simp add: validate_duplicated_attribute_values_def attr_data_values_def dict_eq_def dict_keys_def)
  from rejected_candidate_leaves_registry [OF this] show ?thesis by blast
qed

lemma validate_duplicated_cases:
  "validate_duplicated_attribute_values slugify c used =
     (if \<exists>u \<in> set used. dict_eq (collect_attribute_values slugify c []) u
      then (Inl (ValidationError ''Duplicated attribute values for product variant.''
                   DUPLICATED_INPUT_ITEM (dict_keys (collect_attribute_values slugify c []))),
            used)
      else (Inr (), used @ [collect_attribute_values slugify c []]))"
  by (simp add: validate_duplicated_attribute_values_def Let_def list_ex_iff)

lemma registry_after_call:
  "(\<exists>u \<in> set (snd (validate_duplicated_attribute_values slugify c used)). dict_eq x u)
     \<longleftrightarrow> (\<exists>u \<in> set used. dict_eq x u) \<or> dict_eq x (collect_attribute_values slugify c [])"
  unfolding validate_duplicated_cases
  by (auto intro: dict_eq_trans)

lemma validate_sequence_Cons:
  "validate_sequence slugify (c # cs) used =
     (fst (validate_duplicated_attribute_values slugify c used)
        # fst (validate_sequence slugify cs (snd (validate_duplicated_attribute_values slugify c used))),
      snd (validate_sequence slugify cs (snd (validate_duplicated_attribute_values slugify c used))))"
  by (simp split: prod.splits)

lemma length_validate_sequence:
  "length (fst (validate_sequence slugify cs used)) = length cs"
  by (induction cs arbitrary: used) (simp_all only: validate_sequence_Cons validate_sequence.simps fst_conv list.size)

lemma registry_validate_sequence:
  "snd (validate_sequence slugify cs used) =
     used @ map ((\<lambda>c. collect_attribute_values slugify c []) \<circ> fst)
                (filter (\<lambda>(c, r). r = Inr ()) (zip cs (fst (validate_sequence slugify cs used))))"
proof (induction cs arbitrary: used)
  case Nil
  show ?case by simp
next
  case (Cons c cs)
  show ?case
  proof (cases "\<exists>u \<in> set used. dict_eq (collect_attribute_values slugify c []) u")
    case True
    then have v: "validate_duplicated_attribute_values slugify c used =
           (Inl (ValidationError ''Duplicated attribute values for product variant.''
                   DUPLICATED_INPUT_ITEM (dict_keys (collect_attribute_values slugify c []))), used)"
      by (simp add: validate_duplicated_cases)
    show ?thesis using Cons.IH [of used]
      by (simp only: validate_sequence_Cons v fst_conv snd_conv) simp
  next
    case False
    then have v: "validate_duplicated_attribute_values slugify c used =
           (Inr (), used @ [collect_attribute_values slugify c []])"
      by (simp add: validate_duplicated_cases)
    show ?thesis using Cons.IH [of "used @ [collect_attribute_values slugify c []]"]
      by (simp only: validate_sequence_Cons v fst_conv snd_conv) simp
  qed
qed

lemma ex_less_Suc_nth:
  "(\<exists>j < Suc i. P ((c # cs) ! j)) \<longleftrightarrow> P c \<or> (\<exists>j < i. P (cs ! j))"
  by (auto simp: less_Suc_eq_0_disj)

lemma nth_validate_sequence:
  "i < length cs \<Longrightarrow>
     fst (validate_sequence slugify cs used) ! i =
       (if (\<exists>u \<in> set used. dict_eq (collect_attribute_values slugify (cs ! i) []) u)
           \<or> (\<exists>j < i. dict_eq (collect_attribute_values slugify (cs ! i) [])
                              (collect_attribute_values slugify (cs ! j) []))
        then Inl (ValidationError ''Duplicated attribute values for product variant.''
                    DUPLICATED_INPUT_ITEM
                    (dict_keys (collect_attribute_values slugify (cs ! i) [])))
        else Inr ())"
proof (induction cs arbitrary: used i)
  case Nil
  then show ?case by simp
next
  case (Cons c cs)
  obtain r used' where v: "validate_duplicated_attribute_values slugify c used = (r, used')"
    by (cases "validate_duplicated_attribute_values slugify c used")
  show ?case
  proof (cases i)
    case 0
    have "r = fst (validate_duplicated_attribute_values slugify c used)" by (simp add: v)
    show ?thesis unfolding 0
      by (simp only: validate_sequence_Cons fst_conv nth_Cons_0) (simp add: validate_duplicated_cases)
  next
    case (Suc i')
    with Cons.prems have i': "i' < length cs" by simp
    have u: "used' = snd (validate_duplicated_attribute_values slugify c used)" by (simp add: v)
    have step: "fst (validate_sequence slugify (c # cs) used) ! i
                  = fst (validate_sequence slugify cs used') ! i'"
      by (simp only: validate_sequence_Cons fst_conv Suc nth_Cons_Suc u)
    have reg: "\<And>x. (\<exists>u \<in> set used'. dict_eq x u)
                 \<longleftrightarrow> (\<exists>u \<in> set used. dict_eq x u) \<or> dict_eq x (collect_attribute_values slugify c [])"
      unfolding u by (rule registry_after_call)
    have nth: "(c # cs) ! i = cs ! i'" by (simp add: Suc)
    show ?thesis
      unfolding step Cons.IH [OF i'] nth reg
      unfolding Suc ex_less_Suc_nth [where P = "\<lambda>y. dict_eq (collect_attribute_values slugify (cs ! i') []) (collect_attribute_values slugify y [])" and i = i' and c = c and cs = cs]
      by auto
  qed
qed

text \<open>
  Claim C2. Every accepted candidate appends exactly its own signature to the registry and
  a rejected one appends nothing, so after a sequence of candidates the registry is the
  initial one followed by the signatures of the accepted candidates, in order. A candidate
  is rejected with \<open>DUPLICATED_INPUT_ITEM\<close> exactly when its signature equals one of the
  initial registry or that of an earlier candidate of the sequence; hence of two
  candidates with equal signatures, the second is rejected whenever the first was
  accepted.
\<close>

theorem sequential_validation_is_duplicate_aware:
  "(let sig = (\<lambda>c. collect_attribute_values slugify c []);
        dup = (\<lambda>c. Inl (ValidationError ''Duplicated attribute values for product variant.''
                          DUPLICATED_INPUT_ITEM (dict_keys (sig c))));
        results = fst (validate_sequence slugify cs used);
        used' = snd (validate_sequence slugify cs used)
    in (\<forall>c reg. fst (validate_duplicated_attribute_values slugify c reg) = Inr () \<longrightarrow>
                  snd (validate_duplicated_attribute_values slugify c reg) = reg @ [sig c])
     \<and> length results = length cs
     \<and> used' = used @ map (sig \<circ> fst) (filter (\<lambda>(c, r). r = Inr ()) (zip cs results))
     \<and> length used' = length used + length (filter (\<lambda>r. r = Inr ()) results)
     \<and> (\<forall>i < length cs.
           results ! i =
             (if (\<exists>u \<in> set used. dict_eq (sig (cs ! i)) u)
                 \<or> (\<exists>j < i. dict_eq (sig (cs ! i)) (sig (cs ! j)))
              then dup (cs ! i) else Inr ()))
     \<and> (\<forall>i j. i < j \<and> j < length cs \<and> dict_eq (sig (cs ! i)) (sig (cs ! j))
                 \<and> results ! i = Inr ()
             \<longrightarrow> results ! j = dup (cs ! j)))"
proof -
  define sig where "sig = (\<lambda>c. collect_attribute_values slugify c [])"
  define dup :: "T_INPUT_MAP \<Rightarrow> error + unit"
    where "dup = (\<lambda>c. Inl (ValidationError ''Duplicated attribute values for product variant.''
                          DUPLICATED_INPUT_ITEM (dict_keys (sig c))))"
  define results where "results = fst (validate_sequence slugify cs used)"
  define used' where "used' = snd (validate_sequence slugify cs used)"
  have one: "\<And>c reg. fst (validate_duplicated_attribute_values slugify c reg) = Inr () \<Longrightarrow>
                  snd (validate_duplicated_attribute_values slugify c reg) = reg @ [sig c]"
    by (simp add: validate_duplicated_cases sig_def split: if_splits)
  have len: "length results = length cs"
    by (simp add: results_def length_validate_sequence)
  have reg: "used' = used @ map (sig \<circ> fst) (filter (\<lambda>(c, r). r = Inr ()) (zip cs results))"
    unfolding used'_def results_def sig_def by (rule registry_validate_sequence)
  have "length (filter (\<lambda>(c, r). r = Inr ()) (zip cs results))
          = length (filter (\<lambda>r. r = Inr ()) results)"
    using len
  proof (induction cs arbitrary: results)
    case Nil
    then show ?case by simp
  next
    case (Cons c cs)
    then show ?case by (cases results) auto
  qed
  with reg have cnt: "length used' = length used + length (filter (\<lambda>r. r = Inr ()) results)"
    by simp
  have nth: "\<And>i. i < length cs \<Longrightarrow>
           results ! i =
             (if (\<exists>u \<in> set used. dict_eq (sig (cs ! i)) u)
                 \<or> (\<exists>j < i. dict_eq (sig (cs ! i)) (sig (cs ! j)))
              then dup (cs ! i) else Inr ())"
    unfolding results_def sig_def dup_def by (rule nth_validate_sequence)
  have pair: "\<And>i j. i < j \<Longrightarrow> j < length cs \<Longrightarrow> dict_eq (sig (cs ! i)) (sig (cs ! j))
                 \<Longrightarrow> results ! i = Inr () \<Longrightarrow> results ! j = dup (cs ! j)"
  proof -
    fix i j assume ij: "i < j" and j: "j < length cs"
      and eq: "dict_eq (sig (cs ! i)) (sig (cs ! j))" and acc: "results ! i = Inr ()"
    from eq have "dict_eq (sig (cs ! j)) (sig (cs ! i))" by (simp add: dict_eq_sym)
    with ij have "\<exists>k < j. dict_eq (sig (cs ! j)) (sig (cs ! k))" by blast
    with nth [OF j] show "results ! j = dup (cs ! j)" by simp
  qed
  have c1: "\<forall>c reg. fst (validate_duplicated_attribute_values slugify c reg) = Inr () \<longrightarrow>
                  snd (validate_duplicated_attribute_values slugify c reg) = reg @ [sig c]"
    using one by blast
  have c5: "\<forall>i < length cs.
           results ! i =
             (if (\<exists>u \<in> set used. dict_eq (sig (cs ! i)) u)
                 \<or> (\<exists>j < i. dict_eq (sig (cs ! i)) (sig (cs ! j)))
              then dup (cs ! i) else Inr ())"
    using nth by blast
  have c6: "\<forall>i j. i < j \<and> j < length cs \<and> dict_eq (sig (cs ! i)) (sig (cs ! j))
                 \<and> results ! i = Inr ()
             \<longrightarrow> results ! j = dup (cs ! j)"
    using pair by blast
  show ?thesis
    unfolding Let_def
    using c1 len reg cnt c5 c6
    unfolding sig_def dup_def results_def used'_def
    by - (intro conjI, assumption+)
qed

theorem sequential_validation_is_duplicate_aware_witness:
  "fst (validate_sequence (\<lambda>s. s)
          [[(\<lparr>attr_pk = 7, input_type = DROPDOWN, value_required = True\<rparr>,
             \<lparr>global_id = ''A1'', values = [''xl''], file_url = None\<rparr>),
            (\<lparr>attr_pk = 8, input_type = DROPDOWN, value_required = False\<rparr>,
             \<lparr>global_id = ''A2'', values = [''red''], file_url = None\<rparr>)],
           [(\<lparr>attr_pk = 8, input_type = DROPDOWN, value_required = False\<rparr>,
             \<lparr>global_id = ''A2'', values = [''red''], file_url = None\<rparr>),
            (\<lparr>attr_pk = 7, input_type = DROPDOWN, value_required = True\<rparr>,
             \<lparr>global_id = ''A1'', values = [''xl''], file_url = None\<rparr>)]]
          []) ! 1
     = Inl (ValidationError ''Duplicated attribute values for product variant.''
              DUPLICATED_INPUT_ITEM {''A1'', ''A2''})"
proof -
  let ?c1 = "[(\<lparr>attr_pk = 7, input_type = DROPDOWN, value_required = True\<rparr>,
             \<lparr>global_id = ''A1'', values = [''xl''], file_url = None\<rparr>),
            (\<lparr>attr_pk = 8, input_type = DROPDOWN, value_required = False\<rparr>,
             \<lparr>global_id = ''A2'', values = [''red''], file_url = None\<rparr>)]"
  let ?c2 = "[(\<lparr>attr_pk = 8, input_type = DROPDOWN, value_required = False\<rparr>,
             \<lparr>global_id = ''A2'', values = [''red''], file_url = None\<rparr>),
            (\<lparr>attr_pk = 7, input_type = DROPDOWN, value_required = True\<rparr>,
             \<lparr>global_id = ''A1'', values = [''xl''], file_url = None\<rparr>)]"
  note t = sequential_validation_is_duplicate_aware [of "\<lambda>s. s" "[?c1, ?c2]" "[]", unfolded Let_def]
  note pair = t [THEN conjunct2, THEN conjunct2, THEN conjunct2, THEN conjunct2, THEN conjunct2,
                 THEN spec, THEN spec, of 0 1]
  have pre: "(0::nat) < 1 \<and> 1 < length [?c1, ?c2]
        \<and> dict_eq (collect_attribute_values (\<lambda>s. s) ([?c1, ?c2] ! 0) [])
                    (collect_attribute_values (\<lambda>s. s) ([?c1, ?c2] ! 1) [])
        \<and> fst (validate_sequence (\<lambda>s. s) [?c1, ?c2] []) ! 0 = Inr ()"
    by (simp add: attr_data_values_def dict_eq_def validate_duplicated_attribute_values_def)
  have "fst (validate_sequence (\<lambda>s. s) [?c1, ?c2] []) ! 1
          = Inl (ValidationError ''Duplicated attribute values for product variant.''
              DUPLICATED_INPUT_ITEM (dict_keys (collect_attribute_values (\<lambda>s. s) ([?c1, ?c2] ! 1) [])))"
    by (rule pair [rule_format, OF pre])
  also have "dict_keys (collect_attribute_values (\<lambda>s. s) ([?c1, ?c2] ! 1) []) = {''A1'', ''A2''}"
    by (auto simp: attr_data_values_def dict_keys_def)
  finally show ?thesis .
qed

subsection \<open>Stocks\<close>

lemma distinct_iff_count_list: "distinct vs \<longleftrightarrow> (\<forall>v. count_list vs v \<le> 1)"
proof (induction vs)
  case Nil show ?case by simp
next
  case (Cons x xs)
  show ?case
  proof
    assume d: "distinct (x # xs)"
    then have "x \<notin> set xs" "\<forall>v. count_list xs v \<le> 1" using Cons.IH by auto
    then show "\<forall>v. count_list (x # xs) v \<le> 1" by auto
  next
    assume h: "\<forall>v. count_list (x # xs) v \<le> 1"
    then have "count_list (x # xs) x \<le> 1" by blast
    then have "count_list xs x = 0" by simp
    then have nx: "x \<notin> set xs" by (simp add: count_list_0_iff)
    have "\<forall>v. count_list xs v \<le> 1"
    proof
      fix v from h have "count_list (x # xs) v \<le> 1" by blast
      then show "count_list xs v \<le> 1" by (simp split: if_splits)
    qed
    with nx Cons.IH show "distinct (x # xs)" by simp
  qed
qed

lemma set_get_duplicated_values:
  "set (get_duplicated_values vs) = {v. count_list vs v > 1}"
proof -
  have "\<And>v. count_list vs v > 1 \<Longrightarrow> v \<in> set vs"
    by (metis count_list_0_iff not_less_zero)
  then show ?thesis by (auto simp: get_duplicated_values_def)
qed

lemma distinct_get_duplicated_values: "distinct (get_duplicated_values vs)"
  by (simp add: get_duplicated_values_def)

lemma get_duplicated_values_empty_iff: "get_duplicated_values vs = [] \<longleftrightarrow> distinct vs"
proof -
  have "get_duplicated_values vs = [] \<longleftrightarrow> set (get_duplicated_values vs) = {}" by simp
  also have "\<dots> \<longleftrightarrow> (\<forall>v. count_list vs v \<le> 1)"
    unfolding set_get_duplicated_values by (auto simp: not_less [symmetric])
  finally show ?thesis by (simp add: distinct_iff_count_list)
qed

lemma clean_weight_quantity_stocks_ok_iff:
  "clean_weight_quantity_stocks ci = Inr () \<longleftrightarrow>
     (\<forall>w. ci_weight ci = Some w \<longrightarrow> 0 \<le> w)
   \<and> (\<forall>q. ci_quantity_limit_per_customer ci = Some q \<longrightarrow> 1 \<le> q)
   \<and> (\<forall>stocks. ci_stocks ci = Some stocks \<longrightarrow> distinct (map warehouse stocks))"
  by (auto simp: clean_weight_quantity_stocks_def check_for_duplicates_in_stocks_def Let_def
      get_duplicated_values_empty_iff split: option.splits)

text \<open>
  Claim C8. \<^verbatim>\<open>check_for_duplicates_in_stocks\<close> raises exactly when some warehouse id
  occurs more than once in the stocks: then the error is \<open>UNIQUE\<close> under the field
  \<^verbatim>\<open>stocks\<close>, and its message is \<^verbatim>\<open>Duplicated warehouse ID: \<close> followed by the ids that
  occur more than once, each once, separated by a comma and a space. Stocks with pairwise
  distinct warehouse ids pass. \<^verbatim>\<open>clean_input\<close> fails with that error for a non-empty
  stocks list with a repeated id, once the weight and the quantity limit have passed.
\<close>

theorem duplicated_warehouses_rejected:
  "(let warehouse_ids = map warehouse stocks_data in
      (\<not> distinct warehouse_ids \<longrightarrow>
         (\<exists>ds. ds \<noteq> [] \<and> distinct ds \<and> set ds = {w. count_list warehouse_ids w > 1}
             \<and> check_for_duplicates_in_stocks stocks_data =
                 Inl (ValidationErrorDict ''stocks''
                        (ValidationError (''Duplicated warehouse ID: '' @ join '', '' ds)
                           UNIQUE {}))
             \<and> ((\<forall>w. ci_weight ci = Some w \<longrightarrow> 0 \<le> w)
                  \<and> (\<forall>q. ci_quantity_limit_per_customer ci = Some q \<longrightarrow> 1 \<le> q)
                  \<and> ci_stocks ci = Some stocks_data
                \<longrightarrow> clean_input env instance ci =
                     Inl (ValidationErrorDict ''stocks''
                            (ValidationError (''Duplicated warehouse ID: '' @ join '', '' ds)
                               UNIQUE {})))))
    \<and> (distinct warehouse_ids \<longrightarrow> check_for_duplicates_in_stocks stocks_data = Inr ()))"
proof -
  define ids where "ids = map warehouse stocks_data"
  have pass: "distinct ids \<Longrightarrow> check_for_duplicates_in_stocks stocks_data = Inr ()"
    by (simp add: check_for_duplicates_in_stocks_def Let_def ids_def
        get_duplicated_values_empty_iff)
  have dup: "\<exists>ds. ds \<noteq> [] \<and> distinct ds \<and> set ds = {w. count_list ids w > 1}
             \<and> check_for_duplicates_in_stocks stocks_data =
                 Inl (ValidationErrorDict ''stocks''
                        (ValidationError (''Duplicated warehouse ID: '' @ join '', '' ds)
                           UNIQUE {}))
             \<and> ((\<forall>w. ci_weight ci = Some w \<longrightarrow> 0 \<le> w)
                  \<and> (\<forall>q. ci_quantity_limit_per_customer ci = Some q \<longrightarrow> 1 \<le> q)
                  \<and> ci_stocks ci = Some stocks_data
                \<longrightarrow> clean_input env instance ci =
                     Inl (ValidationErrorDict ''stocks''
                            (ValidationError (''Duplicated warehouse ID: '' @ join '', '' ds)
                               UNIQUE {})))"
    if nd: "\<not> distinct ids"
  proof -
    let ?ds = "get_duplicated_values ids"
    from nd have ne: "?ds \<noteq> []" by (simp add: get_duplicated_values_empty_iff)
    have err: "check_for_duplicates_in_stocks stocks_data =
                 Inl (ValidationErrorDict ''stocks''
                        (ValidationError (''Duplicated warehouse ID: '' @ join '', '' ?ds)
                           UNIQUE {}))"
      using ne by (simp add: check_for_duplicates_in_stocks_def Let_def ids_def)
    have ci: "clean_input env instance ci =
                 Inl (ValidationErrorDict ''stocks''
                        (ValidationError (''Duplicated warehouse ID: '' @ join '', '' ?ds)
                           UNIQUE {}))"
      if "\<forall>w. ci_weight ci = Some w \<longrightarrow> 0 \<le> w"
        and "\<forall>q. ci_quantity_limit_per_customer ci = Some q \<longrightarrow> 1 \<le> q"
        and "ci_stocks ci = Some stocks_data"
    proof -
      from nd have "stocks_data \<noteq> []" by (auto simp: ids_def)
      with that have "clean_weight_quantity_stocks ci = check_for_duplicates_in_stocks stocks_data"
        by (auto simp: clean_weight_quantity_stocks_def split: option.splits)
      then show ?thesis by (simp add: clean_input_def err)
    qed
    from ne distinct_get_duplicated_values [of ids] set_get_duplicated_values [of ids] err ci
    show ?thesis by blast
  qed
  from pass dup show ?thesis unfolding Let_def ids_def [symmetric] by blast
qed

theorem duplicated_warehouses_rejected_witness:
  "check_for_duplicates_in_stocks
     [\<lparr>warehouse = ''W1'', quantity = 5\<rparr>, \<lparr>warehouse = ''W2'', quantity = 3\<rparr>,
      \<lparr>warehouse = ''W1'', quantity = 1\<rparr>]
     = Inl (ValidationErrorDict ''stocks''
              (ValidationError ''Duplicated warehouse ID: W1'' UNIQUE {}))
   \<and> check_for_duplicates_in_stocks
       [\<lparr>warehouse = ''W1'', quantity = 5\<rparr>, \<lparr>warehouse = ''W2'', quantity = 3\<rparr>] = Inr ()"
proof -
  let ?s = "[\<lparr>warehouse = ''W1'', quantity = 5\<rparr>, \<lparr>warehouse = ''W2'', quantity = 3\<rparr>,
      \<lparr>warehouse = ''W1'', quantity = 1\<rparr>]"
  have nd: "\<not> distinct (map warehouse ?s)" by simp
  from duplicated_warehouses_rejected [of ?s, unfolded Let_def, THEN conjunct1, rule_format, OF nd]
  obtain ds where ds: "distinct ds" "set ds = {w. count_list (map warehouse ?s) w > 1}"
    and e: "check_for_duplicates_in_stocks ?s =
                 Inl (ValidationErrorDict ''stocks''
                        (ValidationError (''Duplicated warehouse ID: '' @ join '', '' ds)
                           UNIQUE {}))"
    by blast
  have "''W1'' \<in> {w. count_list (map warehouse ?s) w > 1}" by simp
  moreover have "\<And>w. w \<in> {w. count_list (map warehouse ?s) w > 1} \<Longrightarrow> w = ''W1''"
    by (simp split: if_splits)
  ultimately have "set ds = {''W1''}" unfolding ds(2) by blast
  with ds(1) have "ds = [''W1'']"
  proof (cases ds)
    case Nil
    with \<open>set ds = {''W1''}\<close> show ?thesis by simp
  next
    case (Cons x xs)
    with \<open>set ds = {''W1''}\<close> have x: "x = ''W1''" and sub: "set xs \<subseteq> {''W1''}" by auto
    from Cons ds(1) have "x \<notin> set xs" by simp
    with x sub have "xs = []" by (cases xs) auto
    with Cons x show ?thesis by simp
  qed
  with e have first: "check_for_duplicates_in_stocks ?s
     = Inl (ValidationErrorDict ''stocks''
              (ValidationError ''Duplicated warehouse ID: W1'' UNIQUE {}))"
    by simp
  let ?t = "[\<lparr>warehouse = ''W1'', quantity = 5\<rparr>, \<lparr>warehouse = ''W2'', quantity = 3\<rparr>]"
  have d: "distinct (map warehouse ?t)" by simp
  from duplicated_warehouses_rejected [of ?t, unfolded Let_def, THEN conjunct2, rule_format, OF d]
  have second: "check_for_duplicates_in_stocks ?t = Inr ()" .
  from first second show ?thesis by (rule conjI)
qed

subsection \<open>\<^verbatim>\<open>clean_input\<close>\<close>

lemma clean_input_after_checks:
  "clean_weight_quantity_stocks ci = Inr () \<Longrightarrow> product_of instance ci = Inr parent \<Longrightarrow>
     clean_input env instance ci =
       (case clean_input_attributes env instance ci parent of
          Inl exc \<Rightarrow> Inl exc
        | Inr cleaned \<Rightarrow> clean_sku_preorder env cleaned)"
  by (simp add: clean_input_def)

lemma clean_input_attributes_invalid:
  "set (map attr_id (attributes_or_empty ci))
     - set (map (\<lambda>a. env_to_global_id env ''Attribute'' (attr_pk a))
                (variant_attributes (product_type parent))) \<noteq> {} \<Longrightarrow>
   clean_input_attributes env instance ci parent =
     Inl (ValidationError ''Given attributes are not a variant attributes.''
            ATTRIBUTE_CANNOT_BE_ASSIGNED
            (set (map attr_id (attributes_or_empty ci))
              - set (map (\<lambda>a. env_to_global_id env ''Attribute'' (attr_pk a))
                         (variant_attributes (product_type parent)))))"
  by (simp add: clean_input_attributes_def Let_def)

lemma clean_input_attributes_valid:
  "set (map attr_id (attributes_or_empty ci))
     - set (map (\<lambda>a. env_to_global_id env ''Attribute'' (attr_pk a))
                (variant_attributes (product_type parent))) = {} \<Longrightarrow>
   clean_input_attributes env instance ci parent =
     (if has_variants (product_type parent) then
        (case (if attributes_or_empty ci \<noteq> [] then
                 (case clean_attributes env (attributes_or_empty ci) (product_type parent) of
                    Inl exc \<Rightarrow> Inl exc
                  | Inr cleaned_attributes \<Rightarrow>
                      (case fst (validate_duplicated_attribute_values (env_slugify env)
                                   cleaned_attributes
                                   (env_get_used_variants_attribute_values env parent)) of
                         Inl exc \<Rightarrow> Inl exc
                       | Inr _ \<Rightarrow> Inr (ci\<lparr>ci_cleaned_attributes := Some cleaned_attributes\<rparr>)))
               else if \<not> pk_is_set instance
                       \<and> filter value_required (variant_attributes (product_type parent)) \<noteq> []
               then Inl (ValidationError ''All required attributes must take a value.''
                           REQUIRED {})
               else Inr ci) of
           Inl exc \<Rightarrow>
             Inl (if is_ValidationError exc then ValidationErrorDict ''attributes'' exc else exc)
         | Inr cleaned \<Rightarrow> Inr cleaned)
      else if attributes_or_empty ci \<noteq> [] then
        Inl (ValidationError ''Cannot assign attributes for product type without variants''
               INVALID {})
      else Inr ci)"
  by (simp add: clean_input_attributes_def Let_def)

lemma not_validation_error_cases: "\<not> is_ValidationError exc \<Longrightarrow> \<exists>s. exc = OtherException s"
  by (cases exc) auto

lemma clean_input_attributes_valid_error:
  assumes "set (map attr_id (attributes_or_empty ci))
     - set (map (\<lambda>a. env_to_global_id env ''Attribute'' (attr_pk a))
                (variant_attributes (product_type parent))) = {}"
    and "clean_input_attributes env instance ci parent = Inl exc"
  shows "(\<exists>e. exc = ValidationErrorDict ''attributes'' e) \<or> (\<exists>s. exc = OtherException s)
         \<or> exc = ValidationError ''Cannot assign attributes for product type without variants''
                   INVALID {}"
  using assms(2) unfolding clean_input_attributes_valid [OF assms(1)]
  by (auto split: if_splits sum.splits dest: not_validation_error_cases)

lemma clean_sku_preorder_error:
  "clean_sku_preorder env ci = Inl exc \<Longrightarrow> \<exists>sku. env_clean_variant_sku env sku = Inl exc"
  by (auto simp: clean_sku_preorder_def split: option.splits sum.splits if_splits)

text \<open>
  Claim C3, as stated, fails: \<^verbatim>\<open>clean_input\<close> checks the weight (then the quantity limit
  and the stocks) before it looks at the attributes, so with a negative weight an
  attribute outside the eligible set is not reported.
\<close>

theorem ineligible_attribute_not_reported_counterexample:
  "''Attribute:II''
     \<notin> set (map (env_to_global_id example_env ''Attribute'')
                 (map attr_pk (variant_attributes (product_type (example_product True)))))
   \<and> clean_input example_env unsaved_variant
        ((example_input True
            [\<lparr>attr_id = ''Attribute:II'', attr_values = [''red''], attr_file = None\<rparr>])
           \<lparr>ci_weight := Some (- 1)\<rparr>)
     = Inl (ValidationErrorDict ''weight''
              (ValidationError ''Product variant can't have negative weight.'' INVALID {}))"
  by (simp add: clean_input_def clean_weight_quantity_stocks_def example_input_def
      example_env_def example_product_def example_global_id_def)

text \<open>
  Claim C3, amended. Once the checks of weight, quantity limit and stocks have passed and
  the product is there, \<^verbatim>\<open>clean_input\<close> takes the supplied attribute ids that are not
  global ids of the product type's variant attributes: when there is one, it raises
  \<open>ATTRIBUTE_CANNOT_BE_ASSIGNED\<close> with exactly these ids; when every supplied id is
  eligible, it raises no error of that form (one could then only come out of
  \<^verbatim>\<open>clean_variant_sku\<close>).
\<close>

theorem ineligible_attributes_rejected:
  assumes "clean_weight_quantity_stocks ci = Inr ()"
    and "product_of instance ci = Inr parent"
  shows "(let eligible = set (map (\<lambda>a. env_to_global_id env ''Attribute'' (attr_pk a))
                                 (variant_attributes (product_type parent)));
              supplied = set (map attr_id (attributes_or_empty ci));
              invalid = supplied - eligible
          in (invalid \<noteq> {} \<longrightarrow>
                clean_input env instance ci =
                  Inl (ValidationError ''Given attributes are not a variant attributes.''
                         ATTRIBUTE_CANNOT_BE_ASSIGNED invalid))
           \<and> (supplied \<subseteq> eligible \<longrightarrow>
                (\<forall>msg ids.
                   clean_input env instance ci =
                     Inl (ValidationError msg ATTRIBUTE_CANNOT_BE_ASSIGNED ids) \<longrightarrow>
                   (\<exists>sku. env_clean_variant_sku env sku =
                            Inl (ValidationError msg ATTRIBUTE_CANNOT_BE_ASSIGNED ids)))))"
proof -
  let ?eligible = "set (map (\<lambda>a. env_to_global_id env ''Attribute'' (attr_pk a))
                                 (variant_attributes (product_type parent)))"
  let ?supplied = "set (map attr_id (attributes_or_empty ci))"
  note ci = clean_input_after_checks [OF assms, of env]
  have bad: "clean_input env instance ci =
                  Inl (ValidationError ''Given attributes are not a variant attributes.''
                         ATTRIBUTE_CANNOT_BE_ASSIGNED (?supplied - ?eligible))"
    if "?supplied - ?eligible \<noteq> {}"
    by (simp only: ci clean_input_attributes_invalid [OF that] sum.case)
  have good: "\<exists>sku. env_clean_variant_sku env sku =
                            Inl (ValidationError msg ATTRIBUTE_CANNOT_BE_ASSIGNED ids)"
    if sub: "?supplied \<subseteq> ?eligible"
      and r: "clean_input env instance ci =
                Inl (ValidationError msg ATTRIBUTE_CANNOT_BE_ASSIGNED ids)"
    for msg ids
  proof (cases "clean_input_attributes env instance ci parent")
    case (Inl exc)
    from sub have e: "?supplied - ?eligible = {}" by blast
    from r have "exc = ValidationError msg ATTRIBUTE_CANNOT_BE_ASSIGNED ids"
      by (simp add: ci Inl)
    with clean_input_attributes_valid_error [OF e Inl] show ?thesis by simp
  next
    case (Inr cleaned)
    with r have "clean_sku_preorder env cleaned =
                   Inl (ValidationError msg ATTRIBUTE_CANNOT_BE_ASSIGNED ids)"
      by (simp add: ci)
    then show ?thesis by (rule clean_sku_preorder_error)
  qed
  show ?thesis unfolding Let_def using bad good by blast
qed

theorem ineligible_attributes_rejected_witness:
  "clean_input example_env unsaved_variant
     (example_input True
        [\<lparr>attr_id = ''Attribute:I'', attr_values = [''red''], attr_file = None\<rparr>,
         \<lparr>attr_id = ''Attribute:II'', attr_values = [''xl''], attr_file = None\<rparr>])
     = Inl (ValidationError ''Given attributes are not a variant attributes.''
              ATTRIBUTE_CANNOT_BE_ASSIGNED {''Attribute:II''})"
proof -
  let ?ci = "example_input True
        [\<lparr>attr_id = ''Attribute:I'', attr_values = [''red''], attr_file = None\<rparr>,
         \<lparr>attr_id = ''Attribute:II'', attr_values = [''xl''], attr_file = None\<rparr>]"
  have a: "clean_weight_quantity_stocks ?ci = Inr ()"
    by (simp add: clean_weight_quantity_stocks_def example_input_def)
  have b: "product_of unsaved_variant ?ci = Inr (example_product True)"
    by (simp add: product_of_def pk_is_set_def unsaved_variant_def example_input_def)
  have d: "set (map attr_id (attributes_or_empty ?ci))
             - set (map (\<lambda>a. env_to_global_id example_env ''Attribute'' (attr_pk a))
                        (variant_attributes (product_type (example_product True))))
           = {''Attribute:II''}"
    by (simp add: attributes_or_empty_def example_input_def example_env_def
        example_product_def example_global_id_def)
  from ineligible_attributes_rejected [OF a b, of example_env, unfolded Let_def d]
  show ?thesis by simp
qed

text \<open>
  Claim C4, as stated, fails: for a product type without variants, a non-empty attribute
  input with an id outside the eligible set is rejected by the eligibility check, which
  comes first, with \<open>ATTRIBUTE_CANNOT_BE_ASSIGNED\<close> and not with \<open>INVALID\<close>.
\<close>

theorem attributes_without_variants_counterexample:
  "\<not> has_variants (product_type (example_product False))
   \<and> clean_input example_env unsaved_variant
        (example_input False
           [\<lparr>attr_id = ''Attribute:II'', attr_values = [''red''], attr_file = None\<rparr>])
     = Inl (ValidationError ''Given attributes are not a variant attributes.''
              ATTRIBUTE_CANNOT_BE_ASSIGNED {''Attribute:II''})"
  by (simp add: clean_input_def clean_weight_quantity_stocks_def product_of_def pk_is_set_def
      unsaved_variant_def clean_input_attributes_def attributes_or_empty_def example_input_def
      example_env_def example_product_def example_global_id_def)

text \<open>
  Claim C4, amended. Once the checks of weight, quantity limit and stocks have passed and
  the product is there: if the product type has \<^verbatim>\<open>has_variants = false\<close>, a non-empty
  attribute input whose ids are all eligible fails with \<open>INVALID\<close>; if it has
  \<^verbatim>\<open>has_variants = true\<close>, the instance has no primary key, no attributes are supplied
  and some variant attribute of the type has \<^verbatim>\<open>value_required = true\<close>, cleaning fails
  with \<open>REQUIRED\<close>, under the field \<^verbatim>\<open>attributes\<close>.
\<close>

theorem attributes_invalid_or_required:
  assumes "clean_weight_quantity_stocks ci = Inr ()"
    and "product_of instance ci = Inr parent"
  shows "(\<not> has_variants (product_type parent)
            \<and> attributes_or_empty ci \<noteq> []
            \<and> set (map attr_id (attributes_or_empty ci))
                 \<subseteq> set (map (\<lambda>a. env_to_global_id env ''Attribute'' (attr_pk a))
                              (variant_attributes (product_type parent)))
          \<longrightarrow> clean_input env instance ci =
                Inl (ValidationError
                       ''Cannot assign attributes for product type without variants''
                       INVALID {}))
       \<and> (has_variants (product_type parent)
            \<and> pk instance = None
            \<and> attributes_or_empty ci = []
            \<and> (\<exists>a \<in> set (variant_attributes (product_type parent)). value_required a)
          \<longrightarrow> clean_input env instance ci =
                Inl (ValidationErrorDict ''attributes''
                       (ValidationError ''All required attributes must take a value.''
                          REQUIRED {})))"
proof -
  note ci = clean_input_after_checks [OF assms, of env]
  have inv: "clean_input env instance ci =
                Inl (ValidationError
                       ''Cannot assign attributes for product type without variants''
                       INVALID {})"
    if "\<not> has_variants (product_type parent)" and "attributes_or_empty ci \<noteq> []"
      and sub: "set (map attr_id (attributes_or_empty ci))
                 \<subseteq> set (map (\<lambda>a. env_to_global_id env ''Attribute'' (attr_pk a))
                              (variant_attributes (product_type parent)))"
  proof -
    from sub have e: "set (map attr_id (attributes_or_empty ci))
                 - set (map (\<lambda>a. env_to_global_id env ''Attribute'' (attr_pk a))
                              (variant_attributes (product_type parent))) = {}"
      by blast
    show ?thesis using that(1,2) by (simp add: ci clean_input_attributes_valid [OF e])
  qed
  have req: "clean_input env instance ci =
                Inl (ValidationErrorDict ''attributes''
                       (ValidationError ''All required attributes must take a value.''
                          REQUIRED {}))"
    if hv: "has_variants (product_type parent)" and new: "pk instance = None"
      and none: "attributes_or_empty ci = []"
      and r: "\<exists>a \<in> set (variant_attributes (product_type parent)). value_required a"
  proof -
    have e: "set (map attr_id (attributes_or_empty ci))
                 - set (map (\<lambda>a. env_to_global_id env ''Attribute'' (attr_pk a))
                              (variant_attributes (product_type parent))) = {}"
      by (simp add: none)
    from r have f: "filter value_required (variant_attributes (product_type parent)) \<noteq> []"
      by (simp add: filter_empty_conv)
    from new have p: "\<not> pk_is_set instance" by (simp add: pk_is_set_def)
    show ?thesis using hv none f p by (simp add: ci clean_input_attributes_valid [OF e])
  qed
  from inv req show ?thesis by blast
qed

theorem attributes_invalid_or_required_witness:
  "clean_input example_env unsaved_variant
     (example_input False
        [\<lparr>attr_id = ''Attribute:I'', attr_values = [''red''], attr_file = None\<rparr>])
     = Inl (ValidationError ''Cannot assign attributes for product type without variants''
              INVALID {})
   \<and> clean_input example_env unsaved_variant (example_input True [])
     = Inl (ValidationErrorDict ''attributes''
              (ValidationError ''All required attributes must take a value.'' REQUIRED {}))"
proof -
  let ?c1 = "example_input False
        [\<lparr>attr_id = ''Attribute:I'', attr_values = [''red''], attr_file = None\<rparr>]"
  let ?c2 = "example_input True []"
  have a1: "clean_weight_quantity_stocks ?c1 = Inr ()"
    by (simp add: clean_weight_quantity_stocks_def example_input_def)
  have b1: "product_of unsaved_variant ?c1 = Inr (example_product False)"
    by (simp add: product_of_def pk_is_set_def unsaved_variant_def example_input_def)
  have h1: "\<not> has_variants (product_type (example_product False))
            \<and> attributes_or_empty ?c1 \<noteq> []
            \<and> set (map attr_id (attributes_or_empty ?c1))
                 \<subseteq> set (map (\<lambda>a. env_to_global_id example_env ''Attribute'' (attr_pk a))
                              (variant_attributes (product_type (example_product False))))"
    by (simp add: attributes_or_empty_def example_input_def example_env_def
        example_product_def example_global_id_def)
  have a2: "clean_weight_quantity_stocks ?c2 = Inr ()"
    by (simp add: clean_weight_quantity_stocks_def example_input_def)
  have b2: "product_of unsaved_variant ?c2 = Inr (example_product True)"
    by (simp add: product_of_def pk_is_set_def unsaved_variant_def example_input_def)
  have h2: "has_variants (product_type (example_product True))
            \<and> pk unsaved_variant = None
            \<and> attributes_or_empty ?c2 = []
            \<and> (\<exists>a \<in> set (variant_attributes (product_type (example_product True))).
                   value_required a)"
    by (simp add: attributes_or_empty_def example_input_def unsaved_variant_def
        example_product_def)
  from attributes_invalid_or_required [OF a1 b1, of example_env, THEN conjunct1, rule_format, OF h1]
       attributes_invalid_or_required [OF a2 b2, of example_env, THEN conjunct2, rule_format, OF h2]
  show ?thesis by (rule conjI)
qed

text \<open>
  Claim C10, as stated, fails: the checks of weight, quantity limit and stocks come before
  the eligibility check, so an input with an attribute outside the eligible set and a
  quantity limit of \<open>0\<close> fails with \<open>INVALID\<close>.
\<close>

theorem eligibility_check_not_first_counterexample:
  "''Attribute:II''
     \<notin> set (map (env_to_global_id example_env ''Attribute'')
                 (map attr_pk (variant_attributes (product_type (example_product False)))))
   \<and> clean_input example_env unsaved_variant
        ((example_input False
            [\<lparr>attr_id = ''Attribute:II'', attr_values = [''red''], attr_file = None\<rparr>])
           \<lparr>ci_quantity_limit_per_customer := Some 0\<rparr>)
     = Inl (ValidationErrorDict ''quantity_limit_per_customer''
              (ValidationError
                 ''Product variant can't have quantity_limit_per_customer lower than 1.''
                 INVALID {}))"
  by (simp add: clean_input_def clean_weight_quantity_stocks_def example_input_def
      example_env_def example_product_def example_global_id_def)

text \<open>
  Claim C10, amended. The eligibility check comes before the \<^verbatim>\<open>has_variants\<close> branch:
  once the checks of weight, quantity limit and stocks have passed and the product is
  there, every input with an attribute id outside the eligible set fails with
  \<open>ATTRIBUTE_CANNOT_BE_ASSIGNED\<close> whatever \<^verbatim>\<open>has_variants\<close> is, and the outcome does
  not depend on the attribute cleaner, the used attribute values, the slug function or the
  SKU cleaner: none of the later checks is reached.
\<close>

theorem eligibility_precedes_has_variants:
  assumes "clean_weight_quantity_stocks ci = Inr ()"
    and "product_of instance ci = Inr parent"
    and "\<not> set (map attr_id (attributes_or_empty ci))
             \<subseteq> set (map (\<lambda>a. env_to_global_id env ''Attribute'' (attr_pk a))
                          (variant_attributes (product_type parent)))"
  shows "clean_input env instance ci =
           Inl (ValidationError ''Given attributes are not a variant attributes.''
                  ATTRIBUTE_CANNOT_BE_ASSIGNED
                  (set (map attr_id (attributes_or_empty ci))
                    - set (map (\<lambda>a. env_to_global_id env ''Attribute'' (attr_pk a))
                               (variant_attributes (product_type parent)))))
       \<and> clean_input
            (env\<lparr>env_slugify := slugify',
                 env_get_used_variants_attribute_values := used',
                 env_AttributeAssignmentMixin_clean_input := cleaner',
                 env_clean_variant_sku := clean_sku'\<rparr>)
            instance ci
           = clean_input env instance ci
       \<and> (\<forall>b. clean_input_attributes env instance ci
                  (parent\<lparr>product_type := (product_type parent)\<lparr>has_variants := b\<rparr>\<rparr>)
                = clean_input_attributes env instance ci parent)"
proof -
  let ?invalid = "set (map attr_id (attributes_or_empty ci))
                    - set (map (\<lambda>a. env_to_global_id env ''Attribute'' (attr_pk a))
                               (variant_attributes (product_type parent)))"
  from assms(3) have ne: "?invalid \<noteq> {}" by blast
  let ?env' = "env\<lparr>env_slugify := slugify',
                 env_get_used_variants_attribute_values := used',
                 env_AttributeAssignmentMixin_clean_input := cleaner',
                 env_clean_variant_sku := clean_sku'\<rparr>"
  have one: "clean_input env instance ci =
           Inl (ValidationError ''Given attributes are not a variant attributes.''
                  ATTRIBUTE_CANNOT_BE_ASSIGNED ?invalid)"
    by (simp only: clean_input_after_checks [OF assms(1,2)]
        clean_input_attributes_invalid [OF ne] sum.case)
  have ne': "set (map attr_id (attributes_or_empty ci))
                    - set (map (\<lambda>a. env_to_global_id ?env' ''Attribute'' (attr_pk a))
                               (variant_attributes (product_type parent))) \<noteq> {}"
    using ne by simp
  have two: "clean_input ?env' instance ci = clean_input env instance ci"
    unfolding one
    by (simp only: clean_input_after_checks [OF assms(1,2)]
        clean_input_attributes_invalid [OF ne'] sum.case) simp
  have three: "clean_input_attributes env instance ci
                  (parent\<lparr>product_type := (product_type parent)\<lparr>has_variants := b\<rparr>\<rparr>)
                = clean_input_attributes env instance ci parent" for b
    using ne by (simp add: clean_input_attributes_def Let_def)
  from one two three show ?thesis by blast
qed

theorem eligibility_precedes_has_variants_witness:
  "clean_input example_env unsaved_variant
     (example_input False
        [\<lparr>attr_id = ''Attribute:II'', attr_values = [''xl''], attr_file = None\<rparr>])
     = Inl (ValidationError ''Given attributes are not a variant attributes.''
              ATTRIBUTE_CANNOT_BE_ASSIGNED {''Attribute:II''})"
proof -
  let ?ci = "example_input False
        [\<lparr>attr_id = ''Attribute:II'', attr_values = [''xl''], attr_file = None\<rparr>]"
  have a: "clean_weight_quantity_stocks ?ci = Inr ()"
    by (simp add: clean_weight_quantity_stocks_def example_input_def)
  have b: "product_of unsaved_variant ?ci = Inr (example_product False)"
    by (simp add: product_of_def pk_is_set_def unsaved_variant_def example_input_def)
  have c: "\<not> set (map attr_id (attributes_or_empty ?ci))
             \<subseteq> set (map (\<lambda>a. env_to_global_id example_env ''Attribute'' (attr_pk a))
                          (variant_attributes (product_type (example_product False))))"
    by (simp add: attributes_or_empty_def example_input_def example_env_def
        example_product_def example_global_id_def)
  have d: "set (map attr_id (attributes_or_empty ?ci))
             - set (map (\<lambda>a. env_to_global_id example_env ''Attribute'' (attr_pk a))
                        (variant_attributes (product_type (example_product False))))
           = {''Attribute:II''}"
    by (simp add: attributes_or_empty_def example_input_def example_env_def
        example_product_def example_global_id_def)
  from eligibility_precedes_has_variants [OF a b c, THEN conjunct1, unfolded d]
  show ?thesis .
qed

subsection \<open>\<^verbatim>\<open>save\<close>\<close>

lemma and_then_Inr_iff:
  "and_then m f w = (Inr y, w'') \<longleftrightarrow> (\<exists>x w'. m w = (Inr x, w') \<and> f x w' = (Inr y, w''))"
  by (auto simp: and_then_def split: prod.splits sum.splits)

lemma on_database_frame:
  "on_database f w = (r, w') \<Longrightarrow> events w' = events w \<and> task_queue w' = task_queue w"
  by (auto simp: on_database_def split: sum.splits prod.splits)

lemma write_database_frame:
  "write_database f w = (r, w') \<Longrightarrow> events w' = events w \<and> task_queue w' = task_queue w"
  unfolding write_database_def by (rule on_database_frame)

lemma succeed_Inr_iff: "succeed x w = (Inr y, w') \<longleftrightarrow> y = x \<and> w' = w"
  by (auto simp: succeed_def)

lemma raise_not_Inr: "raise exc w \<noteq> (Inr y, w')"
  by (simp add: raise_def)

lemma set_default_variant_frame:
  "set_default_variant time instance p w = (r, w') \<Longrightarrow>
     events w' = events w \<and> task_queue w' = task_queue w"
  by (auto simp: set_default_variant_def Let_def and_then_def succeed_def
      split: if_splits prod.splits sum.splits dest: write_database_frame)

lemma create_variant_stocks_frame:
  "create_variant_stocks P variant stocks w = (r, w') \<Longrightarrow>
     events w' = events w \<and> task_queue w' = task_queue w"
proof -
  assume a: "create_variant_stocks P variant stocks w = (r, w')"
  let ?m = "on_database (\<lambda>d. case get_nodes_or_error P (map warehouse stocks) d of
                                Inl exc \<Rightarrow> Inl exc
                              | Inr warehouses \<Rightarrow> Inr (warehouses, d))"
  obtain r1 w1 where m: "?m w = (r1, w1)" by (cases "?m w")
  note f1 = on_database_frame [OF m]
  show ?thesis
  proof (cases r1)
    case (Inl exc)
    with a m have "w' = w1" by (simp add: create_variant_stocks_def Let_def and_then_def)
    with f1 show ?thesis by simp
  next
    case (Inr warehouses)
    with a m have "write_database (create_stocks P variant stocks warehouses) w1 = (r, w')"
      by (simp add: create_variant_stocks_def Let_def and_then_def)
    from write_database_frame [OF this] f1 show ?thesis by simp
  qed
qed

lemma delay_Inr: "delay i w = (r, w') \<Longrightarrow> events w' = events w"
  by (auto simp: delay_def)

lemma traced_atomic_transaction_Inr_iff:
  "traced_atomic_transaction block w = (Inr x, w') \<longleftrightarrow> block w = (Inr x, w')"
  by (auto simp: traced_atomic_transaction_def split: prod.splits sum.splits)

lemma traced_atomic_transaction_Inl:
  "traced_atomic_transaction block w = (Inl exc, w') \<Longrightarrow> db w' = db w"
  by (auto simp: traced_atomic_transaction_def split: prod.splits sum.splits)

lemma save_success_events:
  assumes "save P instance ci w = (Inr instance', w')"
  shows "events w' = events w @ [(if pk instance = None then product_variant_created
                                  else product_variant_updated, instance')]
       \<and> pk instance' \<noteq> None"
  using assms
  unfolding save_def Let_def traced_atomic_transaction_Inr_iff
  apply (simp only: and_then_Inr_iff succeed_Inr_iff)
  apply (elim exE conjE)
  apply (auto simp: call_event_def and_then_Inr_iff succeed_Inr_iff raise_not_Inr
         split: option.splits if_splits
         dest!: on_database_frame write_database_frame set_default_variant_frame
                create_variant_stocks_frame delay_Inr)
  done




lemma save_failure_database:
  assumes "save P instance ci w = (Inl exc, w')"
  shows "db w' = db w"
  using assms unfolding save_def Let_def by (rule traced_atomic_transaction_Inl)

text \<open>
  Claim C5. All the steps of \<^verbatim>\<open>save\<close> are inside the one block under
  \<^verbatim>\<open>traced_atomic_transaction\<close>: when any of them raises, \<^verbatim>\<open>save\<close> raises and the
  database is the one from before the call, with nothing of what the earlier steps wrote;
  so the database after \<^verbatim>\<open>save\<close> is either the one before it or the one all the steps
  produced.
\<close>

theorem save_rolls_back_on_failure:
  "fst (save P instance cleaned_input w) = Inl exc \<Longrightarrow>
     db (snd (save P instance cleaned_input w)) = db w"
  by (rule save_failure_database [where exc = exc]) (simp add: prod_eq_iff)

theorem save_rolls_back_on_failure_witness:
  "fst (save example_persistence (unsaved_variant\<lparr>product := Some (example_product True)\<rparr>)
          ((example_input True [])
             \<lparr>ci_stocks := Some [\<lparr>warehouse = ''W404'', quantity = 1\<rparr>]\<rparr>)
          example_world)
     = Inl (OtherException ''W404 not found'')
   \<and> db (snd (save example_persistence
                  (unsaved_variant\<lparr>product := Some (example_product True)\<rparr>)
                  ((example_input True [])
                     \<lparr>ci_stocks := Some [\<lparr>warehouse = ''W404'', quantity = 1\<rparr>]\<rparr>)
                  example_world))
     = db example_world"
proof -
  have f: "fst (save example_persistence
                  (unsaved_variant\<lparr>product := Some (example_product True)\<rparr>)
                  ((example_input True [])
                     \<lparr>ci_stocks := Some [\<lparr>warehouse = ''W404'', quantity = 1\<rparr>]\<rparr>)
                  example_world)
            = Inl (OtherException ''W404 not found'')"
    by (simp add: Let_def save_def traced_atomic_transaction_def and_then_def on_database_def
        write_database_def delay_def succeed_def set_default_variant_def
        product_save_default_variant_def create_variant_stocks_def example_persistence_def
        example_world_def unsaved_variant_def example_product_def example_input_def)
  from f save_rolls_back_on_failure [OF f] show ?thesis by (rule conjI)
qed

text \<open>
  Claim C6. A successful \<^verbatim>\<open>save\<close> adds exactly one event to those emitted:
  \<^verbatim>\<open>product_variant_created\<close> when the instance had no primary key when \<^verbatim>\<open>save\<close> was
  called, \<^verbatim>\<open>product_variant_updated\<close> otherwise. The instance it leaves has a primary
  key, so every later successful \<^verbatim>\<open>save\<close> of it emits \<^verbatim>\<open>product_variant_updated\<close>.
\<close>

theorem save_emits_one_event:
  "save P instance cleaned_input w = (Inr instance', w') \<Longrightarrow>
     events w' = events w @ [(if pk instance = None then product_variant_created
                              else product_variant_updated, instance')]
   \<and> (\<forall>P2 cleaned_input2 w2 instance'' w''.
          save P2 instance' cleaned_input2 (w2 :: ('c, 'r) World) = (Inr instance'', w'') \<longrightarrow>
          events w'' = events w2 @ [(product_variant_updated, instance'')])"
proof -
  assume a: "save P instance cleaned_input w = (Inr instance', w')"
  note first = save_success_events [OF a]
  have "events w'' = events w2 @ [(product_variant_updated, instance'')]"
    if b: "save P2 instance' cleaned_input2 (w2 :: ('c, 'r) World) = (Inr instance'', w'')"
    for P2 cleaned_input2 w2 instance'' w''
    using save_success_events [OF b] first by simp
  with first show ?thesis by blast
qed

theorem save_emits_one_event_witness:
  "events (snd (save example_persistence
                  (unsaved_variant\<lparr>product := Some (example_product True)\<rparr>)
                  (example_input True []) example_world))
     = [(product_variant_created,
         \<lparr>pk = Some 1,
          product = Some ((example_product True)\<lparr>default_variant := Some 1\<rparr>),
          name = ''variant''\<rparr>)]"
proof -
  have s: "save example_persistence
                  (unsaved_variant\<lparr>product := Some (example_product True)\<rparr>)
                  (example_input True []) example_world
           = (Inr \<lparr>pk = Some 1,
                    product = Some ((example_product True)\<lparr>default_variant := Some 1\<rparr>),
                    name = ''variant''\<rparr>,
              snd (save example_persistence
                  (unsaved_variant\<lparr>product := Some (example_product True)\<rparr>)
                  (example_input True []) example_world))"
    by (simp add: Let_def save_def traced_atomic_transaction_def and_then_def on_database_def
        write_database_def delay_def succeed_def call_event_def set_default_variant_def
        product_save_default_variant_def example_persistence_def
        example_world_def unsaved_variant_def example_product_def example_input_def)
  from save_emits_one_event [OF s, THEN conjunct1] show ?thesis
    by (simp add: example_world_def unsaved_variant_def)
qed





















end
